theory Spec2Isabelle
  imports Complex_Main
begin

section \<open>Ball path simulator: data model\<close>

text \<open>
  The component \<^verbatim>\<open>BallPathSimulator\<close> keeps the authored path, the bucket and the
  prediction texts as component state; a run (\<^verbatim>\<open>runSimulation\<close>) owns the ball as
  local variables of a closure and advances it once per animation frame (\<^verbatim>\<open>animate\<close>).

  JavaScript numbers of the physics are modelled as \<^typ>\<open>real\<close>: exact arithmetic, no
  rounding and no overflow. On such values \<^verbatim>\<open>isFinite\<close> always holds, so the guard of
  \<^verbatim>\<open>animate\<close> that aborts a run on a non-finite position never fires here. Two places
  keep more of the numbers of the language. The sampler of the path rounds each of its
  operations to a double (\<open>round64\<close>), because a property below is about the exact value of
  a sample. The numbers of the prediction scorer come from the built-in \<^verbatim>\<open>parseFloat\<close> on
  user text and from a division by the initial energy, so there the special values are kept
  (type \<open>jsnum\<close>); the built-in itself is a parameter of the scorer.
\<close>

record Point =
  px :: real
  py :: real

datatype SegmentType = Line | Curve

record PathSegment =
  seg_type :: SegmentType
  seg_points :: "Point list"

record EnergyData =
  kineticEnergy :: real
  potentialEnergy :: real
  totalEnergy :: real
  energyLoss :: real

record PredictionData =
  pred_initialTotalEnergy :: string
  pred_finalTotalEnergy :: string
  pred_energyLoss :: string
  pred_efficiency :: string

record Bucket =
  bucket_x :: real
  bucket_y :: real
  bucket_width :: real
  bucket_height :: real
  isHit :: bool

definition BALL_RADIUS :: real where "BALL_RADIUS = 15"
definition BALL_MASS :: real where "BALL_MASS = 1"
definition GRAVITY :: real where "GRAVITY = 3 / 10"
definition GROUND_Y :: real where "GROUND_Y = 650"
definition TOLERANCE_PERCENTAGE :: real where "TOLERANCE_PERCENTAGE = 10"
definition BUCKET_WIDTH :: real where "BUCKET_WIDTH = 80"
definition BUCKET_HEIGHT :: real where "BUCKET_HEIGHT = 60"

lemmas consts_defs =
  BALL_RADIUS_def BALL_MASS_def GRAVITY_def GROUND_Y_def TOLERANCE_PERCENTAGE_def
  BUCKET_WIDTH_def BUCKET_HEIGHT_def

section \<open>Bucket containment and energy\<close>

text \<open>\<^verbatim>\<open>checkBucketHit\<close>: the bucket is the one captured by the run's closure.\<close>

definition checkBucketHit :: "Bucket option \<Rightarrow> real \<Rightarrow> real \<Rightarrow> bool" where
  "checkBucketHit bucket ballX ballY =
     (case bucket of
        None \<Rightarrow> False
      | Some b \<Rightarrow>
          (let ballBottom = ballY + BALL_RADIUS;
               bucketLeft = bucket_x b - bucket_width b / 2;
               bucketRight = bucket_x b + bucket_width b / 2;
               bucketTop = bucket_y b - bucket_height b
           in ballX \<ge> bucketLeft \<and> ballX \<le> bucketRight \<and>
              ballBottom \<ge> bucketTop \<and> ballBottom \<le> bucket_y b))"

text \<open>
  \<^verbatim>\<open>calculateEnergy\<close>: the first argument is the value of \<^verbatim>\<open>initialEnergyRef.current\<close>
  that the function reads.
\<close>

definition calculateEnergy :: "real \<Rightarrow> real \<Rightarrow> real \<Rightarrow> real \<Rightarrow> EnergyData" where
  "calculateEnergy initialEnergyRef velocityX velocityY ballY =
     (let velocitySquared = velocityX * velocityX + velocityY * velocityY;
          kinetic = (1 / 2) * BALL_MASS * velocitySquared;
          height = GROUND_Y - ballY;
          potential = BALL_MASS * GRAVITY * height;
          total = kinetic + potential;
          loss = initialEnergyRef - total
      in \<lparr>kineticEnergy = kinetic, potentialEnergy = potential,
          totalEnergy = total, energyLoss = loss\<rparr>)"

section \<open>Numbers of the prediction scorer\<close>

text \<open>
  A JavaScript number that may be \<^verbatim>\<open>NaN\<close> or infinite. Finite values are exact reals;
  the sign of zero is not modelled (a zero divisor counts as \<^verbatim>\<open>+0\<close>).
\<close>

datatype jsnum = Num real | PosInf | NegInf | NaN

fun jneg :: "jsnum \<Rightarrow> jsnum" where
  "jneg (Num a) = Num (- a)"
| "jneg PosInf = NegInf"
| "jneg NegInf = PosInf"
| "jneg NaN = NaN"

fun jsub :: "jsnum \<Rightarrow> jsnum \<Rightarrow> jsnum" where
  "jsub (Num a) (Num b) = Num (a - b)"
| "jsub NaN _ = NaN"
| "jsub _ NaN = NaN"
| "jsub PosInf PosInf = NaN"
| "jsub NegInf NegInf = NaN"
| "jsub PosInf _ = PosInf"
| "jsub NegInf _ = NegInf"
| "jsub (Num a) PosInf = NegInf"
| "jsub (Num a) NegInf = PosInf"

fun jmul :: "jsnum \<Rightarrow> jsnum \<Rightarrow> jsnum" where
  "jmul (Num a) (Num b) = Num (a * b)"
| "jmul NaN _ = NaN"
| "jmul _ NaN = NaN"
| "jmul PosInf (Num b) = (if b = 0 then NaN else if 0 < b then PosInf else NegInf)"
| "jmul NegInf (Num b) = (if b = 0 then NaN else if 0 < b then NegInf else PosInf)"
| "jmul (Num a) PosInf = (if a = 0 then NaN else if 0 < a then PosInf else NegInf)"
| "jmul (Num a) NegInf = (if a = 0 then NaN else if 0 < a then NegInf else PosInf)"
| "jmul PosInf PosInf = PosInf"
| "jmul NegInf NegInf = PosInf"
| "jmul PosInf NegInf = NegInf"
| "jmul NegInf PosInf = NegInf"

fun jdiv :: "jsnum \<Rightarrow> jsnum \<Rightarrow> jsnum" where
  "jdiv (Num a) (Num b) =
     (if b \<noteq> 0 then Num (a / b)
      else if a = 0 then NaN else if 0 < a then PosInf else NegInf)"
| "jdiv NaN _ = NaN"
| "jdiv _ NaN = NaN"
| "jdiv PosInf (Num b) = (if 0 \<le> b then PosInf else NegInf)"
| "jdiv NegInf (Num b) = (if 0 \<le> b then NegInf else PosInf)"
| "jdiv (Num a) _ = Num 0"
| "jdiv _ _ = NaN"

fun jabs :: "jsnum \<Rightarrow> jsnum" where
  "jabs (Num a) = Num \<bar>a\<bar>"
| "jabs PosInf = PosInf"
| "jabs NegInf = PosInf"
| "jabs NaN = NaN"

text \<open>\<^verbatim>\<open>Math.max\<close> of two arguments: \<^verbatim>\<open>NaN\<close> as soon as one argument is.\<close>

fun jmax :: "jsnum \<Rightarrow> jsnum \<Rightarrow> jsnum" where
  "jmax (Num a) (Num b) = Num (max a b)"
| "jmax NaN _ = NaN"
| "jmax _ NaN = NaN"
| "jmax PosInf _ = PosInf"
| "jmax _ PosInf = PosInf"
| "jmax NegInf b = b"
| "jmax a NegInf = a"

text \<open>The comparisons \<^verbatim>\<open><\<close>, \<^verbatim>\<open><=\<close> and \<^verbatim>\<open>===\<close>: false whenever an operand is \<^verbatim>\<open>NaN\<close>.\<close>

fun jlt :: "jsnum \<Rightarrow> jsnum \<Rightarrow> bool" where
  "jlt (Num a) (Num b) = (a < b)"
| "jlt NaN _ = False"
| "jlt _ NaN = False"
| "jlt _ NegInf = False"
| "jlt PosInf _ = False"
| "jlt _ _ = True"

fun jeq :: "jsnum \<Rightarrow> jsnum \<Rightarrow> bool" where
  "jeq (Num a) (Num b) = (a = b)"
| "jeq PosInf PosInf = True"
| "jeq NegInf NegInf = True"
| "jeq _ _ = False"

definition jle :: "jsnum \<Rightarrow> jsnum \<Rightarrow> bool" where
  "jle a b = (jlt a b \<or> jeq a b)"

subsection \<open>A reader of decimal literals\<close>

text \<open>
  The built-in \<^verbatim>\<open>parseFloat\<close> is not code of the component; the scorer below takes it as
  a parameter. \<open>decimalParse\<close> is the instance used in the concrete configurations. It
  reads a text the way the built-in does (leading ASCII white space is dropped, the longest
  prefix that is a \<^verbatim>\<open>StrDecimalLiteral\<close> is read, and the result is \<^verbatim>\<open>NaN\<close> when there is
  no such prefix), but it keeps the exact decimal value where the built-in rounds to a
  double.
\<close>

definition isStrWhiteSpace :: "char \<Rightarrow> bool" where
  "isStrWhiteSpace c =
     (c \<in> set [CHR '' '', CHR 0x09, CHR 0x0A, CHR 0x0B, CHR 0x0C, CHR 0x0D])"

definition isDecimalDigit :: "char \<Rightarrow> bool" where
  "isDecimalDigit c = (48 \<le> (of_char c :: nat) \<and> (of_char c :: nat) \<le> 57)"

definition digitsValue :: "string \<Rightarrow> nat" where
  "digitsValue ds = foldl (\<lambda>a c. 10 * a + ((of_char c :: nat) - 48)) 0 ds"

definition scale10 :: "real \<Rightarrow> int \<Rightarrow> real" where
  "scale10 m e = (if 0 \<le> e then m * 10 ^ nat e else m / 10 ^ nat (- e))"

definition exponentPart :: "string \<Rightarrow> int" where
  "exponentPart r =
     (case r of
        [] \<Rightarrow> 0
      | c # r1 \<Rightarrow>
          if c = CHR ''e'' \<or> c = CHR ''E'' then
            (case r1 of
               [] \<Rightarrow> 0
             | s # r2 \<Rightarrow>
                 if s = CHR ''-'' then - int (digitsValue (takeWhile isDecimalDigit r2))
                 else if s = CHR ''+'' then int (digitsValue (takeWhile isDecimalDigit r2))
                 else int (digitsValue (takeWhile isDecimalDigit r1)))
          else 0)"

definition strUnsignedDecimalLiteral :: "string \<Rightarrow> jsnum" where
  "strUnsignedDecimalLiteral s =
     (if take 8 s = ''Infinity'' then PosInf
      else
        (let ip = takeWhile isDecimalDigit s;
             r1 = dropWhile isDecimalDigit s;
             hasDot = (case r1 of [] \<Rightarrow> False | c # _ \<Rightarrow> c = CHR ''.'');
             fp = (if hasDot then takeWhile isDecimalDigit (tl r1) else []);
             r2 = (if hasDot then dropWhile isDecimalDigit (tl r1) else r1)
         in if ip = [] \<and> fp = [] then NaN
            else Num (scale10 (real (digitsValue (ip @ fp)))
                        (exponentPart r2 - int (length fp)))))"

definition decimalParse :: "string \<Rightarrow> jsnum" where
  "decimalParse str =
     (case dropWhile isStrWhiteSpace str of
        [] \<Rightarrow> NaN
      | c # r \<Rightarrow>
          if c = CHR ''-'' then jneg (strUnsignedDecimalLiteral r)
          else if c = CHR ''+'' then strUnsignedDecimalLiteral r
          else strUnsignedDecimalLiteral (c # r))"

section \<open>Prediction scorer\<close>

record PredictionResult =
  metric :: string
  predicted :: jsnum
  actual :: jsnum
  isCorrect :: bool
  accuracy :: jsnum

definition calculatePredictionAccuracy :: "jsnum \<Rightarrow> jsnum \<Rightarrow> jsnum" where
  "calculatePredictionAccuracy p a =
     (if jeq a (Num 0) then (if jeq p (Num 0) then Num 100 else Num 0)
      else jmax (Num 0) (jsub (Num 100) (jmul (jabs (jdiv (jsub p a) a)) (Num 100))))"

definition isPredictionCorrect :: "jsnum \<Rightarrow> jsnum \<Rightarrow> bool" where
  "isPredictionCorrect p a =
     (if jeq a (Num 0) then jlt (jabs p) (Num (1 / 10))
      else jle (jmul (jabs (jdiv (jsub p a) a)) (Num 100)) (Num TOLERANCE_PERCENTAGE))"

text \<open>
  One \<^verbatim>\<open>if (predictions.m) { ... results.push(...) }\<close> block: a non-empty text is truthy.
  The first argument is the built-in \<^verbatim>\<open>parseFloat\<close>.
\<close>

definition scoreEntry ::
  "(string \<Rightarrow> jsnum) \<Rightarrow> string \<Rightarrow> string \<Rightarrow> jsnum \<Rightarrow> PredictionResult list" where
  "scoreEntry parse name text act =
     (if text \<noteq> [] then
        (let p = parse text
         in [\<lparr>metric = name, predicted = p, actual = act,
               isCorrect = isPredictionCorrect p act,
               accuracy = calculatePredictionAccuracy p act\<rparr>])
      else [])"

text \<open>
  \<^verbatim>\<open>evaluatePredictions\<close>: the value stored by \<^verbatim>\<open>setPredictionResults\<close>. The arguments
  are the built-in \<^verbatim>\<open>parseFloat\<close>, the prediction texts of the component,
  \<^verbatim>\<open>initialEnergyRef.current\<close> and the final energy data.
\<close>

definition evaluatePredictions ::
  "(string \<Rightarrow> jsnum) \<Rightarrow> PredictionData \<Rightarrow> real \<Rightarrow> EnergyData \<Rightarrow> PredictionResult list" where
  "evaluatePredictions parse predictions initialEnergy final =
     (let efficiency =
            jmul (jdiv (Num (initialEnergy - energyLoss final)) (Num initialEnergy)) (Num 100)
      in scoreEntry parse ''Initial Total Energy'' (pred_initialTotalEnergy predictions)
           (Num initialEnergy)
         @ scoreEntry parse ''Final Total Energy'' (pred_finalTotalEnergy predictions)
             (Num (totalEnergy final))
         @ scoreEntry parse ''Energy Loss'' (pred_energyLoss predictions)
             (Num (energyLoss final))
         @ scoreEntry parse ''Efficiency'' (pred_efficiency predictions) efficiency)"

section \<open>Geometry: sampling the path and the contact query\<close>

definition hypot :: "real \<Rightarrow> real \<Rightarrow> real" where
  "hypot a b = sqrt (a * a + b * b)"

subsection \<open>Rounding to a double\<close>

text \<open>
  \<open>round64 v\<close> is the double nearest to \<open>v\<close>, ties to the even significand: \<open>binade\<close> is
  the exponent of \<open>v\<close> (not below that of the subnormal numbers), and the significand has 53
  bits. Values beyond the largest double, which the language turns into \<^verbatim>\<open>Infinity\<close>, are
  not mapped to a special value here, and the sign of a zero result is not kept.
\<close>

definition pow2 :: "int \<Rightarrow> real" where
  "pow2 e = (if 0 \<le> e then 2 ^ nat e else 1 / 2 ^ nat (- e))"

definition roundHalfEven :: "real \<Rightarrow> int" where
  "roundHalfEven z =
     (let f = \<lfloor>z\<rfloor>
      in if z - of_int f < 1 / 2 then f
         else if z - of_int f > 1 / 2 then f + 1
         else if even f then f else f + 1)"

definition binade :: "real \<Rightarrow> int" where
  "binade a = max \<lfloor>log 2 a\<rfloor> (- 1022)"

definition round64 :: "real \<Rightarrow> real" where
  "round64 v =
     (if v = 0 then 0
      else (let q = pow2 (binade \<bar>v\<bar> - 52)
            in sgn v * (of_int (roundHalfEven (\<bar>v\<bar> / q)) * q)))"

subsection \<open>The sampler\<close>

text \<open>
  The body of the inner loop \<^verbatim>\<open>for (let t = 0; t <= steps; t++)\<close>, for one \<open>t\<close>:
  \<^verbatim>\<open>ratio = t / steps\<close> and \<^verbatim>\<open>p1.x + (p2.x - p1.x) * ratio\<close>, with the rounding \<open>rnd\<close>
  applied to the result of each operation. The code computes with doubles, so its sample
  is the one with \<open>round64\<close> for \<open>rnd\<close>.
\<close>

definition interpolate :: "(real \<Rightarrow> real) \<Rightarrow> Point \<Rightarrow> Point \<Rightarrow> nat \<Rightarrow> nat \<Rightarrow> Point" where
  "interpolate rnd p1 p2 steps t =
     (let ratio = rnd (real t / real steps)
      in \<lparr>px = rnd (px p1 + rnd (rnd (px p2 - px p1) * ratio)),
          py = rnd (py p1 + rnd (rnd (py p2 - py p1) * ratio))\<rparr>)"

definition samplePoint :: "Point \<Rightarrow> Point \<Rightarrow> nat \<Rightarrow> nat \<Rightarrow> Point" where
  "samplePoint p1 p2 steps t = interpolate round64 p1 p2 steps t"

definition sampleSpan :: "Point \<Rightarrow> Point \<Rightarrow> nat \<Rightarrow> Point list" where
  "sampleSpan p1 p2 steps = map (samplePoint p1 p2 steps) [0..<Suc steps]"

definition lineSteps :: "Point \<Rightarrow> Point \<Rightarrow> nat" where
  "lineSteps p1 p2 =
     (let distance = hypot (px p2 - px p1) (py p2 - py p1)
      in nat (max \<lfloor>distance / 5\<rfloor> 1))"

text \<open>The loops \<^verbatim>\<open>for (let i = 0; i < segment.points.length - 1; i++)\<close> of both branches.\<close>

fun linePoints :: "Point list \<Rightarrow> Point list" where
  "linePoints (p1 # p2 # ps) = sampleSpan p1 p2 (lineSteps p1 p2) @ linePoints (p2 # ps)"
| "linePoints _ = []"

fun curvePoints :: "Point list \<Rightarrow> Point list" where
  "curvePoints (p1 # p2 # ps) = sampleSpan p1 p2 30 @ curvePoints (p2 # ps)"
| "curvePoints _ = []"

definition segmentPoints :: "PathSegment \<Rightarrow> Point list" where
  "segmentPoints segment =
     (case seg_type segment of
        Line \<Rightarrow> linePoints (seg_points segment)
      | Curve \<Rightarrow> curvePoints (seg_points segment))"

definition getPathPoints :: "PathSegment list \<Rightarrow> Point list" where
  "getPathPoints path = concat (map segmentPoints path)"

text \<open>\<^verbatim>\<open>getCollisionPoint\<close>: the first consecutive pair close enough to the ball wins.\<close>

fun getCollisionPoint :: "Point \<Rightarrow> Point list \<Rightarrow> Point option" where
  "getCollisionPoint ballPos (p1 # p2 # ps) =
     (let A = px ballPos - px p1;
          B = py ballPos - py p1;
          C = px p2 - px p1;
          D = py p2 - py p1;
          dot = A * C + B * D;
          lenSq = C * C + D * D;
          param = (if lenSq \<noteq> 0 then dot / lenSq else - 1);
          xx = (if param < 0 then px p1 else if param > 1 then px p2 else px p1 + param * C);
          yy = (if param < 0 then py p1 else if param > 1 then py p2 else py p1 + param * D);
          dx = px ballPos - xx;
          dy = py ballPos - yy;
          distance = sqrt (dx * dx + dy * dy)
      in if distance < BALL_RADIUS + 3 then Some \<lparr>px = xx, py = yy\<rparr>
         else getCollisionPoint ballPos (p2 # ps))"
| "getCollisionPoint ballPos _ = None"

text \<open>
  The search for the nearest sampled point inside \<^verbatim>\<open>animate\<close>. The arguments after the
  remaining points are the loop index \<open>i\<close>, \<^verbatim>\<open>nearestIdx\<close> and \<^verbatim>\<open>minDist\<close>, where
  \<open>None\<close> stands for the initial \<^verbatim>\<open>Infinity\<close>.
\<close>

fun nearestLoop :: "Point list \<Rightarrow> real \<Rightarrow> real \<Rightarrow> nat \<Rightarrow> nat \<Rightarrow> real option \<Rightarrow> nat" where
  "nearestLoop [] ballX ballY i nearestIdx minDist = nearestIdx"
| "nearestLoop (p # ps) ballX ballY i nearestIdx minDist =
     (let dist = hypot (px p - ballX) (py p - ballY)
      in if (case minDist of None \<Rightarrow> True | Some m \<Rightarrow> dist < m)
         then nearestLoop ps ballX ballY (Suc i) i (Some dist)
         else nearestLoop ps ballX ballY (Suc i) nearestIdx minDist)"

section \<open>The run: state, one frame, scheduling\<close>

text \<open>
  What the closure of a run captures and never changes, and the built-in \<^verbatim>\<open>parseFloat\<close>
  that the scorer calls.
\<close>

record Env =
  pathPoints :: "Point list"
  bucket :: "Bucket option"
  friction :: real
  predictions :: PredictionData
  parseFloat :: "string \<Rightarrow> jsnum"

text \<open>
  The local variables of the run, \<^verbatim>\<open>initialEnergyRef.current\<close>, the component state
  that \<^verbatim>\<open>animate\<close> writes, and \<open>frameRequested\<close>: whether a call of \<^verbatim>\<open>animate\<close>
  is due, because the previous frame asked \<^verbatim>\<open>requestAnimationFrame\<close> for it or, for the
  first frame, because \<^verbatim>\<open>runSimulation\<close> makes the call itself. \<open>bucketHit\<close> stands
  for both \<^verbatim>\<open>setBucketHit(true)\<close> and the \<^verbatim>\<open>isHit\<close> flag that is set on the
  component's bucket in the same statement block. Drawing and the results dialog are left
  out.
\<close>

record Sim =
  ballX :: real
  ballY :: real
  velocityX :: real
  velocityY :: real
  onGround :: bool
  ballInBucket :: bool
  initialEnergyRef :: real
  energyData :: EnergyData
  finalEnergyData :: "EnergyData option"
  predictionResults :: "PredictionResult list"
  bucketHit :: bool
  showBucketResult :: bool
  isAnimating :: bool
  frameRequested :: bool

text \<open>Lines 778 to 781: gravity, then the position moves by the updated velocity.\<close>

definition integrate :: "Sim \<Rightarrow> Sim" where
  "integrate s =
     (let vy = velocityY s + GRAVITY
      in s\<lparr>velocityY := vy, ballX := ballX s + velocityX s, ballY := ballY s + vy\<rparr>)"

text \<open>Lines 792 to 807: bucket capture.\<close>

definition bucketRule :: "Env \<Rightarrow> Sim \<Rightarrow> Sim" where
  "bucketRule env s =
     (case bucket env of
        None \<Rightarrow> s
      | Some b \<Rightarrow>
          if \<not> ballInBucket s then
            (if checkBucketHit (bucket env) (ballX s) (ballY s) then
               s\<lparr>ballInBucket := True, bucketHit := True, showBucketResult := True,
                 ballY := (bucket_y b - bucket_height b) - BALL_RADIUS,
                 velocityX := 0, velocityY := 0, onGround := True\<rparr>
             else s\<lparr>ballInBucket := False\<rparr>)
          else s)"

text \<open>Lines 809 to 820: the ground plane.\<close>

definition groundRule :: "Env \<Rightarrow> Sim \<Rightarrow> Sim" where
  "groundRule env s =
     (if \<not> ballInBucket s \<and> ballY s + BALL_RADIUS \<ge> GROUND_Y then
        s\<lparr>ballY := GROUND_Y - BALL_RADIUS, velocityY := 0, onGround := True,
          velocityX := velocityX s * friction env,
          showBucketResult := (if bucket env \<noteq> None then True else showBucketResult s)\<rparr>
      else s)"

text \<open>Lines 822 to 861: contact with the sampled path.\<close>

definition pathRule :: "Env \<Rightarrow> Sim \<Rightarrow> Sim" where
  "pathRule env s =
     (if \<not> ballInBucket s then
        (case getCollisionPoint \<lparr>px = ballX s, py = ballY s\<rparr> (pathPoints env) of
           Some collision \<Rightarrow>
             (let targetY = py collision - BALL_RADIUS;
                  s1 = (if ballY s > targetY
                        then s\<lparr>ballY := targetY, velocityY := 0, onGround := True\<rparr>
                        else s);
                  nearestIdx = nearestLoop (pathPoints env) (ballX s1) (ballY s1) 0 0 None
              in if Suc nearestIdx < length (pathPoints env) \<and> onGround s1 then
                   (let next = pathPoints env ! Suc nearestIdx;
                        current = pathPoints env ! nearestIdx;
                        dx = px next - px current
                    in if dx \<noteq> 0
                       then s1\<lparr>velocityX := velocityX s1 + ((py next - py current) / dx) * 1\<rparr>
                       else s1)
                 else s1)
         | None \<Rightarrow> s\<lparr>onGround := False\<rparr>)
      else s)"

text \<open>Lines 863 to 865: the damping applied on every frame outside the bucket.\<close>

definition frictionRule :: "Env \<Rightarrow> Sim \<Rightarrow> Sim" where
  "frictionRule env s =
     (if \<not> ballInBucket s then s\<lparr>velocityX := velocityX s * friction env\<rparr> else s)"

text \<open>
  Lines 867 to 885: the ball has stopped (the frame returns without asking for another
  one), or the energy display is updated and the next frame is requested.
\<close>

definition settleRule :: "Env \<Rightarrow> Sim \<Rightarrow> Sim" where
  "settleRule env s =
     (if \<bar>velocityX s\<bar> < 1 / 10 \<and> \<bar>velocityY s\<bar> < 1 / 10 then
        (let finalEnergy = calculateEnergy (initialEnergyRef s) 0 0 (ballY s)
         in s\<lparr>velocityX := 0, velocityY := 0,
              energyData := finalEnergy, finalEnergyData := Some finalEnergy,
              predictionResults :=
                evaluatePredictions (parseFloat env) (predictions env) (initialEnergyRef s)
                  finalEnergy,
              isAnimating := False, frameRequested := False\<rparr>)
      else
        s\<lparr>energyData :=
            calculateEnergy (initialEnergyRef s) (velocityX s) (velocityY s) (ballY s),
          frameRequested := True\<rparr>)"

text \<open>The state of the ball when the stop check of a frame is reached.\<close>

definition beforeSettle :: "Env \<Rightarrow> Sim \<Rightarrow> Sim" where
  "beforeSettle env s =
     frictionRule env (pathRule env (groundRule env (bucketRule env (integrate s))))"

definition animate :: "Env \<Rightarrow> Sim \<Rightarrow> Sim" where
  "animate env s = settleRule env (beforeSettle env s)"

text \<open>
  The browser calls \<^verbatim>\<open>animate\<close> once per frame for as long as the previous call
  requested a frame; \<open>frames n\<close> is the state after at most \<open>n\<close> further frames.
\<close>

fun frames :: "Env \<Rightarrow> nat \<Rightarrow> Sim \<Rightarrow> Sim" where
  "frames env 0 s = s"
| "frames env (Suc n) s = (if frameRequested s then frames env n (animate env s) else s)"

section \<open>The component: authoring a path and starting a run\<close>

datatype SpeedControlMode = Combined | Separate

text \<open>
  The component state that the handlers below read and write. \<open>canvas\<close> is
  \<^verbatim>\<open>canvasRef.current\<close>, given by its width (\<open>None\<close> when the canvas is not mounted); its
  2d context is taken to exist. \<open>energyRef\<close> is \<^verbatim>\<open>initialEnergyRef.current\<close> as an earlier
  run left it, and \<open>componentAnimating\<close> is the state \<^verbatim>\<open>isAnimating\<close>.
\<close>

record Component =
  path :: "PathSegment list"
  currentPoints :: "Point list"
  drawMode :: SegmentType
  canvas :: "real option"
  speedControlMode :: SpeedControlMode
  initialVelocity :: real
  horizontalSpeed :: real
  verticalSpeed :: real
  frictionSetting :: real
  bucketSetting :: "Bucket option"
  predictionTexts :: PredictionData
  energyRef :: real
  shownEnergy :: EnergyData
  bucketPlacementMode :: bool
  componentAnimating :: bool













text \<open>What the closure of a run takes from the component; the first argument is the built-in.\<close>

definition runEnv :: "(string \<Rightarrow> jsnum) \<Rightarrow> Component \<Rightarrow> Env" where
  "runEnv parse c =
     \<lparr>pathPoints = getPathPoints (path c), bucket = bucketSetting c,
      friction = frictionSetting c, predictions = predictionTexts c, parseFloat = parse\<rparr>"

text \<open>
  The state of a run when \<^verbatim>\<open>runSimulation\<close> reaches its first call of \<^verbatim>\<open>animate\<close>.
  \<^verbatim>\<open>pathPoints[0]?.x || canvas.width / 2\<close> takes the canvas centre when there is no
  sampled point and also when the first one has \<open>x = 0\<close>, which is falsy.
\<close>

definition startState :: "Component \<Rightarrow> real \<Rightarrow> Sim" where
  "startState c width =
     (let pts = getPathPoints (path c);
          bx = (case pts of [] \<Rightarrow> width / 2
                | p # _ \<Rightarrow> if px p = 0 then width / 2 else px p);
          by0 = 50;
          vx = (if speedControlMode c = Separate then horizontalSpeed c else initialVelocity c);
          vy = (if speedControlMode c = Separate then verticalSpeed c else 0);
          initialEnergy = calculateEnergy (energyRef c) vx vy by0
      in \<lparr>ballX = bx, ballY = by0, velocityX = vx, velocityY = vy,
          onGround = False, ballInBucket = False,
          initialEnergyRef = totalEnergy initialEnergy,
          energyData = shownEnergy c, finalEnergyData = None, predictionResults = [],
          bucketHit = False, showBucketResult = False,
          isAnimating = True, frameRequested = True\<rparr>)"

text \<open>
  \<^verbatim>\<open>runSimulation\<close>: \<open>None\<close> when the function returns before anything is set up,
  otherwise the state of the run after the first frame, which it calls itself.
\<close>

definition runSimulation :: "(string \<Rightarrow> jsnum) \<Rightarrow> Component \<Rightarrow> Sim option" where
  "runSimulation parse c =
     (if path c = [] then None
      else case canvas c of
             None \<Rightarrow> None
           | Some width \<Rightarrow> Some (animate (runEnv parse c) (startState c width)))"

section \<open>Notions used by the properties\<close>

text \<open>
  The quadratic interpolation of the written description of the sampler: control point
  \<open>c\<close> between the end points \<open>p1\<close> and \<open>p2\<close>, and the midpoint it uses as control point.
\<close>

definition spec_midpoint :: "Point \<Rightarrow> Point \<Rightarrow> Point" where
  "spec_midpoint p1 p2 = \<lparr>px = (px p1 + px p2) / 2, py = (py p1 + py p2) / 2\<rparr>"

definition spec_quadratic :: "Point \<Rightarrow> Point \<Rightarrow> Point \<Rightarrow> real \<Rightarrow> Point" where
  "spec_quadratic p1 c p2 t =
     \<lparr>px = (1 - t)\<^sup>2 * px p1 + 2 * (1 - t) * t * px c + t\<^sup>2 * px p2,
      py = (1 - t)\<^sup>2 * py p1 + 2 * (1 - t) * t * py c + t\<^sup>2 * py p2\<rparr>"

text \<open>
  The coordinates of a point are small enough for the sampler not to leave the range of
  the doubles: every canvas position is.
\<close>

definition boundedPoint :: "Point \<Rightarrow> bool" where
  "boundedPoint p = (\<bar>px p\<bar> \<le> 2 ^ 1000 \<and> \<bar>py p\<bar> \<le> 2 ^ 1000)"

text \<open>
  A bound on what the rounding of the four operations can add up to in one coordinate of
  a sample, between control points with the coordinates \<open>a\<close> and \<open>b\<close>: 13 times the
  relative precision \<open>2^-53\<close> of a double on \<open>|a| + |b|\<close>, and 7 times half the smallest
  positive double.
\<close>

definition sampleError :: "real \<Rightarrow> real \<Rightarrow> real" where
  "sampleError a b = 13 * ((1 / 2 ^ 53) * (\<bar>a\<bar> + \<bar>b\<bar>)) + 7 * (1 / 2 ^ 1075)"

text \<open>Total energy of the ball as \<^verbatim>\<open>calculateEnergy\<close> computes it from a state.\<close>

definition stateEnergy :: "Sim \<Rightarrow> real" where
  "stateEnergy s =
     totalEnergy (calculateEnergy (initialEnergyRef s) (velocityX s) (velocityY s) (ballY s))"

text \<open>
  Two energies are equal within floating-point tolerance: they differ by at most one part
  in \<open>10^9\<close> of the larger magnitude, or of 1 for values below 1.
\<close>

definition FLOAT_TOLERANCE :: real where
  "FLOAT_TOLERANCE = 1 / 10 ^ 9"

definition withinTolerance :: "real \<Rightarrow> real \<Rightarrow> bool" where
  "withinTolerance a b = (\<bar>a - b\<bar> \<le> FLOAT_TOLERANCE * max 1 (max \<bar>a\<bar> \<bar>b\<bar>))"

text \<open>
  The frame that starts in \<open>s\<close> is a free-fall frame: after the position update the ball
  is not captured by the bucket, does not reach the ground line and has no contact point
  on the sampled path.
\<close>

definition freeFall :: "Env \<Rightarrow> Sim \<Rightarrow> bool" where
  "freeFall env s =
     (let s1 = integrate s
      in \<not> ballInBucket s
         \<and> \<not> checkBucketHit (bucket env) (ballX s1) (ballY s1)
         \<and> \<not> (ballY s1 + BALL_RADIUS \<ge> GROUND_Y)
         \<and> getCollisionPoint \<lparr>px = ballX s1, py = ballY s1\<rparr> (pathPoints env) = None)"





subsection \<open>Concrete configurations\<close>

definition zeroEnergy :: EnergyData where
  "zeroEnergy = \<lparr>kineticEnergy = 0, potentialEnergy = 0, totalEnergy = 0, energyLoss = 0\<rparr>"

text \<open>
  A short line segment near the top left, a bucket on the ground at \<open>x = 300\<close>, the default
  speed 2 and friction 0.98, and two prediction texts.
\<close>

definition demoComponent :: Component where
  "demoComponent =
     \<lparr>path = [\<lparr>seg_type = Line, seg_points = [\<lparr>px = 100, py = 100\<rparr>, \<lparr>px = 104, py = 103\<rparr>]\<rparr>],
      currentPoints = [], drawMode = Line, canvas = Some 1200,
      speedControlMode = Combined, initialVelocity = 2, horizontalSpeed = 2, verticalSpeed = 0,
      frictionSetting = 98 / 100,
      bucketSetting = Some \<lparr>bucket_x = 300, bucket_y = GROUND_Y, bucket_width = BUCKET_WIDTH,
                            bucket_height = BUCKET_HEIGHT, isHit = False\<rparr>,
      predictionTexts = \<lparr>pred_initialTotalEnergy = ''180'', pred_finalTotalEnergy = [],
                         pred_energyLoss = ''177.5'', pred_efficiency = []\<rparr>,
      energyRef = 0, shownEnergy = zeroEnergy,
      bucketPlacementMode = False, componentAnimating = False\<rparr>"

definition demoEnv :: Env where
  "demoEnv = runEnv decimalParse demoComponent"

text \<open>The same component with the damping switched off.\<close>

definition frictionlessComponent :: Component where
  "frictionlessComponent = demoComponent\<lparr>frictionSetting := 1\<rparr>"



text \<open>A ball rolling slowly on the ground, and a ball dropping into the bucket.\<close>

definition restState :: Sim where
  "restState =
     \<lparr>ballX = 500, ballY = 635, velocityX = 1 / 20, velocityY = 0,
      onGround = True, ballInBucket = False, initialEnergyRef = 182,
      energyData = zeroEnergy, finalEnergyData = None, predictionResults = [],
      bucketHit = False, showBucketResult = False, isAnimating = True, frameRequested = True\<rparr>"

definition dropState :: Sim where
  "dropState =
     \<lparr>ballX = 300, ballY = 570, velocityX = 1, velocityY = 5,
      onGround = False, ballInBucket = False, initialEnergyRef = 182,
      energyData = zeroEnergy, finalEnergyData = None, predictionResults = [],
      bucketHit = False, showBucketResult = False, isAnimating = True, frameRequested = True\<rparr>"

text \<open>
  A curve segment with three control points, a path that holds it after the line segment
  of \<open>demoComponent\<close>, and a curve segment between the doubles nearest to 0.3 and 0.9.
\<close>

definition demoCurve :: PathSegment where
  "demoCurve =
     \<lparr>seg_type = Curve,
      seg_points = [\<lparr>px = 0, py = 0\<rparr>, \<lparr>px = 30, py = 60\<rparr>, \<lparr>px = 90, py = 60\<rparr>]\<rparr>"

definition demoPath :: "PathSegment list" where
  "demoPath = path demoComponent @ [demoCurve]"

definition tenthsCurve :: PathSegment where
  "tenthsCurve =
     \<lparr>seg_type = Curve,
      seg_points = [\<lparr>px = 5404319552844595 / 18014398509481984, py = 0\<rparr>,
                    \<lparr>px = 8106479329266893 / 9007199254740992, py = 0\<rparr>]\<rparr>"

section \<open>Evaluation lemmas\<close>

lemma sqrt_less_18: "sqrt a < 18 \<longleftrightarrow> a < 324"
proof -
  have "sqrt 324 = 18"
    using real_sqrt_abs [of 18] by simp
  then show ?thesis
    using real_sqrt_less_iff [of a 324] by simp
qed

lemma sqrt_25: "sqrt 25 = 5"
  using real_sqrt_abs [of 5] by simp

lemma pow2_powr: "pow2 e = 2 powr (real_of_int e)"
  by (simp add: pow2_def powr_int)

lemma binade_at:
  assumes "pow2 e \<le> a" and "a < pow2 (e + 1)" and "- 1022 \<le> e"
  shows "binade a = e"
proof -
  have "0 < pow2 e" by (simp add: pow2_def)
  with assms(1) have pos: "0 < a" by linarith
  have "\<lfloor>log 2 a\<rfloor> = e"
    using assms(1,2) floor_log_eq_powr_iff [of a 2 e] pos
    by (simp add: pow2_powr)
  with assms(3) show ?thesis by (simp add: binade_def)
qed

lemma round64_at:
  assumes "pow2 e \<le> v" and "v < pow2 (e + 1)" and "- 1022 \<le> e"
  shows "round64 v = of_int (roundHalfEven (v / pow2 (e - 52))) * pow2 (e - 52)"
proof -
  have "0 < pow2 e" by (simp add: pow2_def)
  with assms(1) have pos: "0 < v" by linarith
  then show ?thesis
    using binade_at [OF assms] by (simp add: round64_def Let_def)
qed

lemma round64_values:
  "round64 0 = 0" "round64 1 = 1" "round64 3 = 3" "round64 4 = 4"
  "round64 30 = 30" "round64 60 = 60" "round64 100 = 100" "round64 103 = 103"
  "round64 104 = 104" "round64 (1 / 2) = 1 / 2"
proof -
  show "round64 0 = 0" by (simp add: round64_def)
  show "round64 1 = 1"
    by (subst round64_at [of 0]) (simp_all add: pow2_def roundHalfEven_def Let_def)
  show "round64 3 = 3"
    by (subst round64_at [of 1]) (simp_all add: pow2_def roundHalfEven_def Let_def)
  show "round64 4 = 4"
    by (subst round64_at [of 2]) (simp_all add: pow2_def roundHalfEven_def Let_def)
  show "round64 30 = 30"
    by (subst round64_at [of 4]) (simp_all add: pow2_def roundHalfEven_def Let_def)
  show "round64 60 = 60"
    by (subst round64_at [of 5]) (simp_all add: pow2_def roundHalfEven_def Let_def)
  show "round64 100 = 100"
    by (subst round64_at [of 6]) (simp_all add: pow2_def roundHalfEven_def Let_def)
  show "round64 103 = 103"
    by (subst round64_at [of 6]) (simp_all add: pow2_def roundHalfEven_def Let_def)
  show "round64 104 = 104"
    by (subst round64_at [of 6]) (simp_all add: pow2_def roundHalfEven_def Let_def)
  show "round64 (1 / 2) = 1 / 2"
    by (subst round64_at [of "- 1"]) (simp_all add: pow2_def roundHalfEven_def Let_def)
qed

lemmas frame_defs =
  frictionRule_def pathRule_def groundRule_def bucketRule_def integrate_def
  checkBucketHit_def consts_defs


lemma demo_pathPoints:
  "getPathPoints (path demoComponent) = [\<lparr>px = 100, py = 100\<rparr>, \<lparr>px = 104, py = 103\<rparr>]"
  by (simp add: getPathPoints_def demoComponent_def segmentPoints_def sampleSpan_def
      samplePoint_def interpolate_def lineSteps_def hypot_def sqrt_25 round64_values Let_def)

lemma demoEnv_eq:
  "demoEnv =
     \<lparr>pathPoints = [\<lparr>px = 100, py = 100\<rparr>, \<lparr>px = 104, py = 103\<rparr>],
      bucket = Some \<lparr>bucket_x = 300, bucket_y = 650, bucket_width = 80,
                     bucket_height = 60, isHit = False\<rparr>,
      friction = 98 / 100,
      predictions = \<lparr>pred_initialTotalEnergy = ''180'', pred_finalTotalEnergy = [],
                     pred_energyLoss = ''177.5'', pred_efficiency = []\<rparr>,
      parseFloat = decimalParse\<rparr>"
  unfolding demoEnv_def runEnv_def demo_pathPoints
  by (simp add: demoComponent_def consts_defs)

lemma demo_start:
  "startState demoComponent 1200 =
     \<lparr>ballX = 100, ballY = 50, velocityX = 2, velocityY = 0,
      onGround = False, ballInBucket = False, initialEnergyRef = 182,
      energyData = zeroEnergy, finalEnergyData = None, predictionResults = [],
      bucketHit = False, showBucketResult = False, isAnimating = True, frameRequested = True\<rparr>"
  unfolding startState_def demo_pathPoints
  by (simp add: demoComponent_def calculateEnergy_def consts_defs Let_def)

lemma beforeSettle_rest:
  "beforeSettle demoEnv restState =
     restState\<lparr>ballX := 10001 / 20, velocityX := 2401 / 50000, onGround := False,
       showBucketResult := True\<rparr>"
  by (simp add: beforeSettle_def frame_defs demoEnv_eq restState_def Let_def sqrt_less_18)

lemma beforeSettle_start:
  "beforeSettle demoEnv (startState demoComponent 1200) =
     (startState demoComponent 1200)\<lparr>ballX := 102, ballY := 503 / 10,
       velocityX := 196 / 100, velocityY := 3 / 10\<rparr>"
  by (simp add: beforeSettle_def frame_defs demoEnv_eq demo_start Let_def sqrt_less_18)

section \<open>The frame, rule by rule\<close>

lemma ref_integrate: "initialEnergyRef (integrate s) = initialEnergyRef s"
  by (simp add: integrate_def Let_def)

lemma ref_bucketRule: "initialEnergyRef (bucketRule env s) = initialEnergyRef s"
  by (simp add: bucketRule_def split: option.splits)

lemma ref_groundRule: "initialEnergyRef (groundRule env s) = initialEnergyRef s"
  by (simp add: groundRule_def)

lemma ref_pathRule: "initialEnergyRef (pathRule env s) = initialEnergyRef s"
  by (simp add: pathRule_def Let_def split: option.splits)

lemma ref_frictionRule: "initialEnergyRef (frictionRule env s) = initialEnergyRef s"
  by (simp add: frictionRule_def)

lemma ref_beforeSettle: "initialEnergyRef (beforeSettle env s) = initialEnergyRef s"
  by (simp add: beforeSettle_def ref_integrate ref_bucketRule ref_groundRule ref_pathRule
      ref_frictionRule)

lemma ref_settleRule: "initialEnergyRef (settleRule env s) = initialEnergyRef s"
  by (simp add: settleRule_def Let_def)

lemma ref_animate: "initialEnergyRef (animate env s) = initialEnergyRef s"
  by (simp add: animate_def ref_settleRule ref_beforeSettle)

lemma ref_frames: "initialEnergyRef (frames env n s) = initialEnergyRef s"
  by (induction n arbitrary: s) (simp_all add: ref_animate)

lemma frames_stopped: "\<not> frameRequested s \<Longrightarrow> frames env n s = s"
  by (cases n) simp_all

lemma settleRule_stop:
  "\<bar>velocityX s\<bar> < 1 / 10 \<Longrightarrow> \<bar>velocityY s\<bar> < 1 / 10 \<Longrightarrow>
     settleRule env s =
       s\<lparr>velocityX := 0, velocityY := 0,
         energyData := calculateEnergy (initialEnergyRef s) 0 0 (ballY s),
         finalEnergyData := Some (calculateEnergy (initialEnergyRef s) 0 0 (ballY s)),
         predictionResults :=
           evaluatePredictions (parseFloat env) (predictions env) (initialEnergyRef s)
             (calculateEnergy (initialEnergyRef s) 0 0 (ballY s)),
         isAnimating := False, frameRequested := False\<rparr>"
  by (simp add: settleRule_def Let_def)

lemma settleRule_go:
  "\<not> (\<bar>velocityX s\<bar> < 1 / 10 \<and> \<bar>velocityY s\<bar> < 1 / 10) \<Longrightarrow>
     settleRule env s =
       s\<lparr>energyData :=
           calculateEnergy (initialEnergyRef s) (velocityX s) (velocityY s) (ballY s),
         frameRequested := True\<rparr>"
  unfolding settleRule_def by (rule if_not_P)

section \<open>Energy snapshot\<close>

text \<open>
  C7. The snapshot holds kinetic = mass (vx^2 + vy^2) / 2, potential = mass * gravity *
  (groundY - y), total = kinetic + potential and loss = initial total - total. The initial
  total is the total of the state in which the run starts; no frame changes it, and the
  snapshot of every frame is computed against it.
\<close>

theorem energy_snapshot:
  "kineticEnergy (calculateEnergy initialTotal vx vy y) = (1 / 2) * BALL_MASS * (vx\<^sup>2 + vy\<^sup>2)
   \<and> potentialEnergy (calculateEnergy initialTotal vx vy y) = BALL_MASS * GRAVITY * (GROUND_Y - y)
   \<and> totalEnergy (calculateEnergy initialTotal vx vy y)
       = kineticEnergy (calculateEnergy initialTotal vx vy y)
         + potentialEnergy (calculateEnergy initialTotal vx vy y)
   \<and> energyLoss (calculateEnergy initialTotal vx vy y)
       = initialTotal - totalEnergy (calculateEnergy initialTotal vx vy y)
   \<and> initialEnergyRef (startState c w)
       = totalEnergy (calculateEnergy (energyRef c) (velocityX (startState c w))
           (velocityY (startState c w)) (ballY (startState c w)))
   \<and> initialEnergyRef (frames env n s) = initialEnergyRef s
   \<and> energyData (animate env s)
       = calculateEnergy (initialEnergyRef s) (velocityX (animate env s))
           (velocityY (animate env s)) (ballY (animate env s))"
proof -
  have e: "energyData (animate env s)
       = calculateEnergy (initialEnergyRef s) (velocityX (animate env s))
           (velocityY (animate env s)) (ballY (animate env s))"
    using ref_beforeSettle [of env s] by (simp add: animate_def settleRule_def Let_def)
  have st: "initialEnergyRef (startState c w)
       = totalEnergy (calculateEnergy (energyRef c) (velocityX (startState c w))
           (velocityY (startState c w)) (ballY (startState c w)))"
    by (simp add: startState_def Let_def)
  have f: "initialEnergyRef (frames env n s) = initialEnergyRef s"
    by (rule ref_frames)
  have k: "kineticEnergy (calculateEnergy initialTotal vx vy y)
       = (1 / 2) * BALL_MASS * (vx\<^sup>2 + vy\<^sup>2)"
    by (simp add: calculateEnergy_def Let_def power2_eq_square)
  have p: "potentialEnergy (calculateEnergy initialTotal vx vy y)
       = BALL_MASS * GRAVITY * (GROUND_Y - y)"
    by (simp add: calculateEnergy_def Let_def)
  have t: "totalEnergy (calculateEnergy initialTotal vx vy y)
       = kineticEnergy (calculateEnergy initialTotal vx vy y)
         + potentialEnergy (calculateEnergy initialTotal vx vy y)"
    by (simp add: calculateEnergy_def Let_def)
  have l: "energyLoss (calculateEnergy initialTotal vx vy y)
       = initialTotal - totalEnergy (calculateEnergy initialTotal vx vy y)"
    by (simp add: calculateEnergy_def Let_def)
  from k p t l st f e show ?thesis by blast
qed

theorem energy_snapshot_witness:
  "calculateEnergy 182 2 (3 / 10) (503 / 10)
     = \<lparr>kineticEnergy = 409 / 200, potentialEnergy = 17991 / 100,
        totalEnergy = 36391 / 200, energyLoss = 9 / 200\<rparr>
   \<and> initialEnergyRef (startState demoComponent 1200) = 182
   \<and> initialEnergyRef (frames demoEnv 3 (startState demoComponent 1200)) = 182"
proof -
  have v: "calculateEnergy 182 2 (3 / 10) (503 / 10)
     = \<lparr>kineticEnergy = 409 / 200, potentialEnergy = 17991 / 100,
        totalEnergy = 36391 / 200, energyLoss = 9 / 200\<rparr>"
    using energy_snapshot [of 182 2 "3 / 10" "503 / 10" demoComponent 1200 demoEnv 0 restState]
    by (simp add: consts_defs power2_eq_square)
  have "initialEnergyRef (frames demoEnv 3 (startState demoComponent 1200))
          = initialEnergyRef (startState demoComponent 1200)"
    using energy_snapshot [of 0 0 0 0 demoComponent 1200 demoEnv 3 "startState demoComponent 1200"]
    by blast
  with v show ?thesis by (simp add: demo_start)
qed

section \<open>Prediction accuracy\<close>

text \<open>
  C9. For real predicted and actual values: when actual = 0 the accuracy is 100 for
  predicted = 0 and 0 otherwise; when actual is not 0 it is max 0 (100 - |predicted -
  actual| / |actual| * 100); it is never negative; and the accuracy of a nonzero actual
  value against itself is 100.
\<close>

theorem accuracy_formula:
  "(a = 0 \<longrightarrow> calculatePredictionAccuracy (Num p) (Num a) = Num (if p = 0 then 100 else 0))
   \<and> (a \<noteq> 0 \<longrightarrow> calculatePredictionAccuracy (Num p) (Num a)
         = Num (max 0 (100 - \<bar>p - a\<bar> / \<bar>a\<bar> * 100)))
   \<and> jle (Num 0) (calculatePredictionAccuracy (Num p) (Num a))
   \<and> (a \<noteq> 0 \<longrightarrow> calculatePredictionAccuracy (Num a) (Num a) = Num 100)"
  by (auto simp add: calculatePredictionAccuracy_def jle_def abs_divide)

theorem accuracy_formula_witness:
  "calculatePredictionAccuracy (Num 5) (Num 0) = Num 0
   \<and> calculatePredictionAccuracy (Num 0) (Num 0) = Num 100
   \<and> calculatePredictionAccuracy (Num 9) (Num 10) = Num 90
   \<and> calculatePredictionAccuracy (Num 35) (Num 10) = Num 0
   \<and> calculatePredictionAccuracy (Num 10) (Num 10) = Num 100"
  using accuracy_formula [of 0 5] accuracy_formula [of 0 0] accuracy_formula [of 10 9]
    accuracy_formula [of 10 35]
  by simp

section \<open>Sampling a curve segment\<close>

lemma quadratic_midpoint:
  "(1 - t)\<^sup>2 * a + 2 * (1 - t) * t * ((a + b) / 2) + t\<^sup>2 * b = a + (b - a) * (t::real)"
  by (simp add: power2_eq_square field_simps)

lemma interpolate_exact:
  "interpolate (\<lambda>v. v) p1 p2 steps k
     = spec_quadratic p1 (spec_midpoint p1 p2) p2 (real k / real steps)"
  unfolding interpolate_def spec_quadratic_def spec_midpoint_def Let_def
  by (simp only: quadratic_midpoint Point.simps)

lemma length_sampleSpan: "length (sampleSpan p1 p2 steps) = Suc steps"
  by (simp add: sampleSpan_def)

lemma nth_sampleSpan: "k \<le> steps \<Longrightarrow> sampleSpan p1 p2 steps ! k = samplePoint p1 p2 steps k"
  unfolding sampleSpan_def by (simp add: nth_map_upt del: upt_Suc)

lemma length_curvePoints: "length (curvePoints ps) = 31 * (length ps - 1)"
  by (induction ps rule: curvePoints.induct) (simp_all add: length_sampleSpan)

lemma nth_curvePoints:
  "Suc i < length ps \<Longrightarrow> k \<le> 30 \<Longrightarrow>
     curvePoints ps ! (31 * i + k) = samplePoint (ps ! i) (ps ! Suc i) 30 k"
proof (induction ps arbitrary: i rule: curvePoints.induct)
  case (1 p1 p2 ps)
  show ?case
  proof (cases i)
    case 0
    with 1 show ?thesis
      by (simp add: nth_append length_sampleSpan nth_sampleSpan)
  next
    case (Suc j)
    with 1 have "curvePoints (p2 # ps) ! (31 * j + k)
        = samplePoint ((p2 # ps) ! j) ((p2 # ps) ! Suc j) 30 k"
      by simp
    with Suc show ?thesis
      by (simp add: nth_append length_sampleSpan)
  qed
qed simp_all

lemma getPathPoints_append:
  "getPathPoints (p @ q) = getPathPoints p @ getPathPoints q"
  by (simp add: getPathPoints_def)

lemma getPathPoints_split:
  assumes "j < length p"
  shows "getPathPoints p
     = getPathPoints (take j p) @ segmentPoints (p ! j) @ getPathPoints (drop (Suc j) p)"
proof -
  have "p = take j p @ [p ! j] @ drop (Suc j) p"
    using assms by (simp add: id_take_nth_drop)
  then have "getPathPoints p = getPathPoints (take j p @ [p ! j] @ drop (Suc j) p)"
    by simp
  then show ?thesis
    by (simp only: getPathPoints_append) (simp add: getPathPoints_def)
qed

lemma curve_index:
  assumes "Suc i < n" and "k \<le> 30"
  shows "31 * i + k < 31 * (n - 1)"
proof -
  from assms(1) have "Suc i \<le> n - 1" by simp
  then have "31 * Suc i \<le> 31 * (n - 1)" by (rule mult_le_mono2)
  with assms(2) show ?thesis by simp
qed

lemma getPathPoints_curve_nth:
  assumes "j < length p" and "seg_type (p ! j) = Curve"
    and "Suc i < length (seg_points (p ! j))" and "k \<le> 30"
  shows "length (getPathPoints (take j p)) + 31 * i + k < length (getPathPoints p)"
    and "getPathPoints p ! (length (getPathPoints (take j p)) + 31 * i + k)
       = samplePoint (seg_points (p ! j) ! i) (seg_points (p ! j) ! Suc i) 30 k"
proof -
  let ?pre = "getPathPoints (take j p)"
  let ?seg = "segmentPoints (p ! j)"
  have s: "?seg = curvePoints (seg_points (p ! j))"
    using assms(2) by (simp add: segmentPoints_def)
  have l: "31 * i + k < length ?seg"
    unfolding s length_curvePoints using assms(3,4) by (rule curve_index)
  have split: "getPathPoints p = ?pre @ ?seg @ getPathPoints (drop (Suc j) p)"
    using assms(1) by (rule getPathPoints_split)
  show "length ?pre + 31 * i + k < length (getPathPoints p)"
    using l by (subst split) simp
  have "getPathPoints p ! (length ?pre + (31 * i + k)) = ?seg ! (31 * i + k)"
    using l by (subst split) (simp add: nth_append)
  then show "getPathPoints p ! (length ?pre + 31 * i + k)
       = samplePoint (seg_points (p ! j) ! i) (seg_points (p ! j) ! Suc i) 30 k"
    using nth_curvePoints [OF assms(3,4)] by (simp add: s add.assoc)
qed

lemma roundHalfEven_error: "\<bar>of_int (roundHalfEven z) - z\<bar> \<le> 1 / 2"
proof -
  have "of_int \<lfloor>z\<rfloor> \<le> z" and "z < of_int \<lfloor>z\<rfloor> + 1" by linarith+
  then show ?thesis
    by (auto simp add: roundHalfEven_def Let_def)
qed

lemma pow2_pos: "0 < pow2 e"
  by (simp add: pow2_def)

lemma pow2_half: "pow2 (e - 52) / 2 = pow2 e / 2 ^ 53"
proof -
  have "pow2 (e - 52) / 2 = 2 powr (real_of_int e - 52 - 1)"
    unfolding pow2_powr by (simp add: powr_diff)
  also have "\<dots> = 2 powr (real_of_int e) / 2 powr 53"
    by (simp add: powr_diff)
  also have "(2::real) powr 53 = 2 ^ 53"
    using powr_realpow [of 2 53] by simp
  finally show ?thesis by (simp add: pow2_powr)
qed

lemma binade_error:
  assumes "0 < a"
  shows "pow2 (binade a) / 2 ^ 53 \<le> a / 2 ^ 53 + 1 / 2 ^ 1075"
proof (cases "- 1022 \<le> \<lfloor>log 2 a\<rfloor>")
  case True
  then have b: "binade a = \<lfloor>log 2 a\<rfloor>" by (simp add: binade_def)
  have "real_of_int \<lfloor>log 2 a\<rfloor> \<le> log 2 a" by simp
  then have "2 powr (real_of_int \<lfloor>log 2 a\<rfloor>) \<le> 2 powr (log 2 a)"
    by (simp only: powr_le_cancel_iff)
  also have "\<dots> = a" using assms by simp
  finally have "pow2 (binade a) \<le> a" by (simp add: b pow2_powr)
  then have "pow2 (binade a) / 2 ^ 53 \<le> a / 2 ^ 53" by (simp add: divide_right_mono)
  then show ?thesis by simp
next
  case False
  then have b: "binade a = - 1022" by (simp add: binade_def)
  have "pow2 (- 1022) / 2 ^ 53 = 1 / 2 ^ 1075"
    by (simp add: pow2_def)
  with assms show ?thesis by (simp add: b)
qed

lemma round64_error: "\<bar>round64 v - v\<bar> \<le> (1 / 2 ^ 53) * \<bar>v\<bar> + 1 / 2 ^ 1075"
proof (cases "v = 0")
  case True
  then show ?thesis by (simp add: round64_def)
next
  case False
  define a where "a = \<bar>v\<bar>"
  define q where "q = pow2 (binade a - 52)"
  define n where "n = real_of_int (roundHalfEven (a / q))"
  have apos: "0 < a" using False by (simp add: a_def)
  have qpos: "0 < q" by (simp add: q_def pow2_pos)
  have r: "round64 v = sgn v * (n * q)"
    using False by (simp add: round64_def Let_def a_def q_def n_def)
  have v: "v = sgn v * a" by (simp add: a_def sgn_mult_abs)
  have "round64 v - v = sgn v * (n * q - a)"
    by (subst (2) v) (simp add: r algebra_simps)
  then have "\<bar>round64 v - v\<bar> = \<bar>n * q - a\<bar>"
    using False by (simp add: abs_mult abs_sgn_eq)
  also have "n * q - a = (n - a / q) * q"
    using qpos by (simp add: algebra_simps)
  also have "\<bar>(n - a / q) * q\<bar> = \<bar>n - a / q\<bar> * q"
    using qpos by (simp add: abs_mult)
  also have "\<dots> \<le> (1 / 2) * q"
    using roundHalfEven_error [of "a / q"] qpos
    by (intro mult_right_mono) (simp_all add: n_def)
  also have "(1 / 2) * q = pow2 (binade a) / 2 ^ 53"
    using pow2_half [of "binade a"] by (simp add: q_def)
  also have "\<dots> \<le> a / 2 ^ 53 + 1 / 2 ^ 1075"
    using apos by (rule binade_error)
  finally show ?thesis by (simp add: a_def)
qed

lemma rounding_chain:
  fixes U H M :: real
  assumes d: "\<bar>d' - d\<bar> \<le> U * \<bar>d\<bar> + H"
    and r: "\<bar>r' - r\<bar> \<le> U * \<bar>r\<bar> + H"
    and m: "\<bar>m' - d' * r'\<bar> \<le> U * \<bar>d' * r'\<bar> + H"
    and s: "\<bar>s' - (x + m')\<bar> \<le> U * \<bar>x + m'\<bar> + H"
    and r01: "0 \<le> r" "r \<le> 1"
    and U: "0 \<le> U" "U \<le> 1 / 2"
    and H: "0 \<le> H" "H \<le> U"
    and M: "\<bar>d\<bar> \<le> M" "\<bar>x\<bar> \<le> M"
  shows "\<bar>s' - (x + d * r)\<bar> \<le> 13 * (U * M) + 7 * H"
proof -
  have M0: "0 \<le> M" using M(1) by linarith
  have UM: "0 \<le> U * M" using U(1) M0 by simp
  have Ud: "U * \<bar>d\<bar> \<le> U * M" using M(1) U(1) by (rule mult_left_mono)
  have Ur: "U * \<bar>r\<bar> \<le> U" using r01 U(1) by (simp add: mult_left_le)
  have r'2: "\<bar>r'\<bar> \<le> 2" using r Ur r01 U H by linarith
  have dd: "\<bar>d' - d\<bar> \<le> U * M + H" using d Ud by linarith
  have rr: "\<bar>r' - r\<bar> \<le> U + H" using r Ur by linarith
  have p1: "\<bar>d' - d\<bar> * \<bar>r'\<bar> \<le> (U * M + H) * 2"
    using dd r'2 by (intro mult_mono) (use UM H in simp_all)
  have p2: "\<bar>d\<bar> * \<bar>r' - r\<bar> \<le> M * (U + H)"
    using M(1) rr by (intro mult_mono) (use M0 in simp_all)
  have MH: "M * H \<le> M * U" using H(2) M0 by (rule mult_left_mono)
  have "d' * r' - d * r = (d' - d) * r' + d * (r' - r)" by (simp add: algebra_simps)
  then have "\<bar>d' * r' - d * r\<bar> \<le> \<bar>d' - d\<bar> * \<bar>r'\<bar> + \<bar>d\<bar> * \<bar>r' - r\<bar>"
    using abs_triangle_ineq [of "(d' - d) * r'" "d * (r' - r)"] by (simp add: abs_mult)
  with p1 p2 MH have e1: "\<bar>d' * r' - d * r\<bar> \<le> 4 * (U * M) + 2 * H"
    by (simp add: algebra_simps)
  have "\<bar>d * r\<bar> \<le> M * 1"
    unfolding abs_mult using M(1) r01 by (intro mult_mono) (use M0 in simp_all)
  then have dr: "\<bar>d * r\<bar> \<le> M" by simp
  have UM2: "U * M \<le> M / 2"
    using mult_right_mono [OF U(2) M0] by simp
  have q: "\<bar>d' * r'\<bar> \<le> 3 * M + 2 * H" using e1 dr UM2 by linarith
  have "U * \<bar>d' * r'\<bar> \<le> U * (3 * M + 2 * H)" using q U(1) by (rule mult_left_mono)
  also have "\<dots> = 3 * (U * M) + 2 * (U * H)" by (simp add: algebra_simps)
  also have "U * H \<le> H / 2" using mult_right_mono [OF U(2) H(1)] by simp
  finally have "U * \<bar>d' * r'\<bar> \<le> 3 * (U * M) + H" by linarith
  with m have e2: "\<bar>m' - d' * r'\<bar> \<le> 3 * (U * M) + 2 * H" by linarith
  from e1 e2 have e3: "\<bar>m' - d * r\<bar> \<le> 7 * (U * M) + 4 * H" by linarith
  have xm: "\<bar>x + m'\<bar> \<le> 6 * M + 4 * H" using e3 dr M(2) UM2 by linarith
  have "U * \<bar>x + m'\<bar> \<le> U * (6 * M + 4 * H)" using xm U(1) by (rule mult_left_mono)
  also have "\<dots> = 6 * (U * M) + 4 * (U * H)" by (simp add: algebra_simps)
  also have "U * H \<le> H / 2" using mult_right_mono [OF U(2) H(1)] by simp
  finally have "U * \<bar>x + m'\<bar> \<le> 6 * (U * M) + 2 * H" by linarith
  with s have e4: "\<bar>s' - (x + m')\<bar> \<le> 6 * (U * M) + 3 * H" by linarith
  from e3 e4 show ?thesis by linarith
qed

lemma coordinate_error:
  assumes "k \<le> steps"
  shows "\<bar>round64 (a + round64 (round64 (b - a) * round64 (real k / real steps)))
          - (a + (b - a) * (real k / real steps))\<bar> \<le> sampleError a b"
proof -
  have r0: "0 \<le> real k / real steps" by simp
  have r1: "real k / real steps \<le> 1"
    using assms by (cases "steps = 0") simp_all
  have h: "(1::real) / 2 ^ 1075 \<le> 1 / 2 ^ 53"
    by (intro divide_left_mono power_increasing) simp_all
  have u: "(1::real) / 2 ^ 53 \<le> 1 / 2"
    using divide_left_mono [of "2 ^ 1" "2 ^ 53" "1::real"] by simp
  have m: "\<bar>b - a\<bar> \<le> \<bar>a\<bar> + \<bar>b\<bar>" and x: "\<bar>a\<bar> \<le> \<bar>a\<bar> + \<bar>b\<bar>" by linarith+
  show ?thesis
    unfolding sampleError_def
    by (rule rounding_chain [OF round64_error round64_error round64_error round64_error
          r0 r1 _ u _ h m x]) simp_all
qed

lemma interpolate_error:
  assumes "k \<le> steps"
  shows "\<bar>px (interpolate round64 p1 p2 steps k) - px (interpolate (\<lambda>v. v) p1 p2 steps k)\<bar>
       \<le> sampleError (px p1) (px p2)"
    and "\<bar>py (interpolate round64 p1 p2 steps k) - py (interpolate (\<lambda>v. v) p1 p2 steps k)\<bar>
       \<le> sampleError (py p1) (py p2)"
  using coordinate_error [OF assms, of "px p1" "px p2"]
    coordinate_error [OF assms, of "py p1" "py p2"]
  by (simp_all add: interpolate_def Let_def)

lemma tenths_sample:
  "samplePoint \<lparr>px = 5404319552844595 / 18014398509481984, py = 0\<rparr>
     \<lparr>px = 8106479329266893 / 9007199254740992, py = 0\<rparr> 30 30
   = \<lparr>px = 8106479329266894 / 9007199254740992, py = 0\<rparr>"
proof -
  have d: "round64 (8106479329266893 / 9007199254740992 - 5404319552844595 / 18014398509481984)
      = 5404319552844596 / 9007199254740992"
    by (subst round64_at [of "- 1"]) (simp_all add: pow2_def roundHalfEven_def Let_def)
  have m: "round64 (5404319552844596 / 9007199254740992) = 5404319552844596 / 9007199254740992"
    by (subst round64_at [of "- 1"]) (simp_all add: pow2_def roundHalfEven_def Let_def)
  have s: "round64 (5404319552844595 / 18014398509481984 + 5404319552844596 / 9007199254740992)
      = 8106479329266894 / 9007199254740992"
    by (subst round64_at [of "- 1"]) (simp_all add: pow2_def roundHalfEven_def Let_def)
  have z: "round64 0 = 0" and o: "round64 1 = 1"
    by (simp_all add: round64_values)
  have r: "real (30::nat) / real (30::nat) = 1" by simp
  show ?thesis
    unfolding samplePoint_def interpolate_def Let_def
    by (simp only: Point.simps r o d m s z mult_1_right mult_zero_left diff_self add_0_left)
qed

text \<open>
  C4, as stated, fails: between the control points 0.3 and 0.9 (as doubles) the last of
  the 31 samples of the pair has \<open>x = 0.9000000000000001\<close>, while the quadratic
  interpolation with the midpoint as control point gives the end point 0.9 at \<open>t = 30/30\<close>.
\<close>

theorem curve_sampling_counterexample:
  "getPathPoints [tenthsCurve] ! 30 = \<lparr>px = 8106479329266894 / 9007199254740992, py = 0\<rparr>
   \<and> spec_quadratic (seg_points tenthsCurve ! 0)
        (spec_midpoint (seg_points tenthsCurve ! 0) (seg_points tenthsCurve ! 1))
        (seg_points tenthsCurve ! 1) (30 / 30)
      = \<lparr>px = 8106479329266893 / 9007199254740992, py = 0\<rparr>"
proof -
  have a: "(0::nat) < length [tenthsCurve]" by simp
  have b: "seg_type ([tenthsCurve] ! 0) = Curve" by (simp add: tenthsCurve_def)
  have c: "Suc 0 < length (seg_points ([tenthsCurve] ! 0))" by (simp add: tenthsCurve_def)
  have d: "(30::nat) \<le> 30" by simp
  have "getPathPoints [tenthsCurve] ! 30
      = samplePoint (seg_points tenthsCurve ! 0) (seg_points tenthsCurve ! Suc 0) 30 30"
    using getPathPoints_curve_nth(2) [OF a b c d] by (simp add: getPathPoints_def)
  then have e: "getPathPoints [tenthsCurve] ! 30
      = \<lparr>px = 8106479329266894 / 9007199254740992, py = 0\<rparr>"
    by (simp add: tenthsCurve_def tenths_sample)
  have q: "spec_quadratic (seg_points tenthsCurve ! 0)
        (spec_midpoint (seg_points tenthsCurve ! 0) (seg_points tenthsCurve ! 1))
        (seg_points tenthsCurve ! 1) (30 / 30)
      = \<lparr>px = 8106479329266893 / 9007199254740992, py = 0\<rparr>"
    by (simp add: tenthsCurve_def spec_quadratic_def spec_midpoint_def)
  from e q show ?thesis by blast
qed

text \<open>
  C4, amended. In a path, for every curve segment and every pair of consecutive control
  points \<open>p1\<close>, \<open>p2\<close> of it (number \<open>i\<close> and \<open>i + 1\<close>), the sampler emits 31 points for the
  pair, 30 steps, at the positions \<open>31 i .. 31 i + 30\<close> after the samples of the segments
  before. Sample \<open>k\<close> is \<open>p1 + (p2 - p1) * (k / 30)\<close> with the result of each of the four
  operations rounded to a double. Without the rounding this expression is the quadratic
  interpolation \<open>(1 - t)^2 p1 + 2 (1 - t) t ((p1 + p2) / 2) + t^2 p2\<close> at \<open>t = k / 30\<close>, whose
  control point is the midpoint of the pair; with it, each coordinate of the sample is
  within \<open>13 * 2^-53 * (|a| + |b|) + 7 * 2^-1075\<close> of that interpolation, for the coordinates
  \<open>a\<close> and \<open>b\<close> of the two control points.
\<close>

theorem curve_sampling:
  assumes "j < length p" and "seg_type (p ! j) = Curve"
    and "Suc i < length (seg_points (p ! j))" and "k \<le> 30"
    and "boundedPoint (seg_points (p ! j) ! i)" and "boundedPoint (seg_points (p ! j) ! Suc i)"
  shows "length (segmentPoints (p ! j)) = 31 * (length (seg_points (p ! j)) - 1)
     \<and> length (getPathPoints (take j p)) + 31 * i + k < length (getPathPoints p)
     \<and> getPathPoints p ! (length (getPathPoints (take j p)) + 31 * i + k)
         = interpolate round64 (seg_points (p ! j) ! i) (seg_points (p ! j) ! Suc i) 30 k
     \<and> interpolate (\<lambda>v. v) (seg_points (p ! j) ! i) (seg_points (p ! j) ! Suc i) 30 k
         = spec_quadratic (seg_points (p ! j) ! i)
             (spec_midpoint (seg_points (p ! j) ! i) (seg_points (p ! j) ! Suc i))
             (seg_points (p ! j) ! Suc i) (real k / 30)
     \<and> \<bar>px (getPathPoints p ! (length (getPathPoints (take j p)) + 31 * i + k))
          - px (spec_quadratic (seg_points (p ! j) ! i)
                  (spec_midpoint (seg_points (p ! j) ! i) (seg_points (p ! j) ! Suc i))
                  (seg_points (p ! j) ! Suc i) (real k / 30))\<bar>
         \<le> sampleError (px (seg_points (p ! j) ! i)) (px (seg_points (p ! j) ! Suc i))
     \<and> \<bar>py (getPathPoints p ! (length (getPathPoints (take j p)) + 31 * i + k))
          - py (spec_quadratic (seg_points (p ! j) ! i)
                  (spec_midpoint (seg_points (p ! j) ! i) (seg_points (p ! j) ! Suc i))
                  (seg_points (p ! j) ! Suc i) (real k / 30))\<bar>
         \<le> sampleError (py (seg_points (p ! j) ! i)) (py (seg_points (p ! j) ! Suc i))"
proof -
  let ?p1 = "seg_points (p ! j) ! i" and ?p2 = "seg_points (p ! j) ! Suc i"
  let ?n = "length (getPathPoints (take j p)) + 31 * i + k"
  have l: "length (segmentPoints (p ! j)) = 31 * (length (seg_points (p ! j)) - 1)"
    using assms(2) by (simp add: segmentPoints_def length_curvePoints)
  note n = getPathPoints_curve_nth [OF assms(1-4)]
  have s: "getPathPoints p ! ?n = interpolate round64 ?p1 ?p2 30 k"
    using n(2) by (simp add: samplePoint_def)
  have e: "interpolate (\<lambda>v. v) ?p1 ?p2 30 k
         = spec_quadratic ?p1 (spec_midpoint ?p1 ?p2) ?p2 (real k / 30)"
    using interpolate_exact [of ?p1 ?p2 30 k] by simp
  note b = interpolate_error [OF assms(4), of ?p1 ?p2]
  have bx: "\<bar>px (getPathPoints p ! ?n)
          - px (spec_quadratic ?p1 (spec_midpoint ?p1 ?p2) ?p2 (real k / 30))\<bar>
         \<le> sampleError (px ?p1) (px ?p2)"
    using b(1) unfolding s e .
  have bt: "\<bar>py (getPathPoints p ! ?n)
          - py (spec_quadratic ?p1 (spec_midpoint ?p1 ?p2) ?p2 (real k / 30))\<bar>
         \<le> sampleError (py ?p1) (py ?p2)"
    using b(2) unfolding s e .
  from l n(1) s e bx bt show ?thesis by blast
qed

theorem curve_sampling_witness:
  "(1::nat) < length demoPath \<and> seg_type (demoPath ! 1) = Curve
   \<and> Suc 1 < length (seg_points (demoPath ! 1)) \<and> (15::nat) \<le> 30
   \<and> boundedPoint (seg_points (demoPath ! 1) ! 1)
   \<and> boundedPoint (seg_points (demoPath ! 1) ! Suc 1)
   \<and> length (getPathPoints (take 1 demoPath)) = 2
   \<and> length (segmentPoints (demoPath ! 1)) = 62
   \<and> 48 < length (getPathPoints demoPath)
   \<and> getPathPoints demoPath ! 48 = \<lparr>px = 60, py = 60\<rparr>
   \<and> spec_quadratic (seg_points (demoPath ! 1) ! 1)
        (spec_midpoint (seg_points (demoPath ! 1) ! 1) (seg_points (demoPath ! 1) ! Suc 1))
        (seg_points (demoPath ! 1) ! Suc 1) (real 15 / 30) = \<lparr>px = 60, py = 60\<rparr>
   \<and> \<bar>px (getPathPoints demoPath ! 48) - 60\<bar> \<le> sampleError 30 90"
proof -
  have seg: "demoPath ! 1 = demoCurve"
    by (simp add: demoPath_def demoComponent_def)
  have a: "(1::nat) < length demoPath"
    by (simp add: demoPath_def demoComponent_def)
  have b: "seg_type (demoPath ! 1) = Curve"
    unfolding seg by (simp add: demoCurve_def)
  have c: "Suc 1 < length (seg_points (demoPath ! 1))"
    unfolding seg by (simp add: demoCurve_def)
  have d: "(15::nat) \<le> 30" by simp
  have p1: "seg_points (demoPath ! 1) ! 1 = \<lparr>px = 30, py = 60\<rparr>"
    unfolding seg by (simp add: demoCurve_def)
  have p2: "seg_points (demoPath ! 1) ! Suc 1 = \<lparr>px = 90, py = 60\<rparr>"
    unfolding seg by (simp add: demoCurve_def)
  have b1: "boundedPoint (seg_points (demoPath ! 1) ! 1)"
    unfolding p1 by (simp add: boundedPoint_def)
  have b2: "boundedPoint (seg_points (demoPath ! 1) ! Suc 1)"
    unfolding p2 by (simp add: boundedPoint_def)
  have "take 1 demoPath = path demoComponent"
    by (simp add: demoPath_def demoComponent_def)
  then have pre: "length (getPathPoints (take 1 demoPath)) = 2"
    by (simp add: demo_pathPoints)
  have len: "length (seg_points (demoPath ! 1)) = 3"
    unfolding seg by (simp add: demoCurve_def)
  have v: "interpolate round64 \<lparr>px = 30, py = 60\<rparr> \<lparr>px = 90, py = 60\<rparr> 30 15
      = \<lparr>px = 60, py = 60\<rparr>"
    by (simp add: interpolate_def Let_def round64_values)
  have q: "spec_quadratic \<lparr>px = 30, py = 60\<rparr>
        (spec_midpoint \<lparr>px = 30, py = 60\<rparr> \<lparr>px = 90, py = 60\<rparr>) \<lparr>px = 90, py = 60\<rparr>
        (real 15 / 30) = \<lparr>px = 60, py = 60\<rparr>"
    by (simp add: spec_quadratic_def spec_midpoint_def power2_eq_square)
  have i: "(2::nat) + 31 * 1 + 15 = 48" by simp
  have n: "(31::nat) * (3 - 1) = 62" by simp
  have x: "px \<lparr>px = 60, py = 60\<rparr> = (60::real)" "px \<lparr>px = 30, py = 60\<rparr> = (30::real)"
    "px \<lparr>px = 90, py = 60\<rparr> = (90::real)"
    by simp_all
  note t = curve_sampling [OF a b c d b1 b2, unfolded pre len p1 p2 v q i n x]
  from t have t1: "length (segmentPoints (demoPath ! 1)) = 62"
    and t2: "48 < length (getPathPoints demoPath)"
    and t3: "getPathPoints demoPath ! 48 = \<lparr>px = 60, py = 60\<rparr>"
    and t4: "\<bar>px (getPathPoints demoPath ! 48) - 60\<bar> \<le> sampleError 30 90"
    by blast+
  from a b c d b1 b2 pre t1 t2 t3 t4 q show ?thesis
    unfolding p1 p2 by blast
qed

section \<open>The stop check\<close>

text \<open>
  C6. When both velocity components are below 0.1 in magnitude once the frame has updated
  them, the frame sets both to 0, computes the final energy data from that state, and no
  further frame runs. Otherwise the frame does not end the run: it requests the next frame
  and leaves the velocity and the final energy data alone.
\<close>

theorem settle_check:
  "(\<bar>velocityX (beforeSettle env s)\<bar> < 1 / 10 \<and> \<bar>velocityY (beforeSettle env s)\<bar> < 1 / 10 \<longrightarrow>
      velocityX (animate env s) = 0 \<and> velocityY (animate env s) = 0
      \<and> ballX (animate env s) = ballX (beforeSettle env s)
      \<and> ballY (animate env s) = ballY (beforeSettle env s)
      \<and> finalEnergyData (animate env s)
          = Some (calculateEnergy (initialEnergyRef s) 0 0 (ballY (beforeSettle env s)))
      \<and> \<not> isAnimating (animate env s)
      \<and> \<not> frameRequested (animate env s)
      \<and> (\<forall>n. frames env n (animate env s) = animate env s))
   \<and> (\<not> (\<bar>velocityX (beforeSettle env s)\<bar> < 1 / 10 \<and> \<bar>velocityY (beforeSettle env s)\<bar> < 1 / 10) \<longrightarrow>
      frameRequested (animate env s)
      \<and> finalEnergyData (animate env s) = finalEnergyData (beforeSettle env s)
      \<and> velocityX (animate env s) = velocityX (beforeSettle env s)
      \<and> velocityY (animate env s) = velocityY (beforeSettle env s))"
proof (intro conjI impI)
  assume a: "\<bar>velocityX (beforeSettle env s)\<bar> < 1 / 10 \<and> \<bar>velocityY (beforeSettle env s)\<bar> < 1 / 10"
  then have eq: "animate env s = (beforeSettle env s)\<lparr>velocityX := 0, velocityY := 0,
         energyData := calculateEnergy (initialEnergyRef s) 0 0 (ballY (beforeSettle env s)),
         finalEnergyData :=
           Some (calculateEnergy (initialEnergyRef s) 0 0 (ballY (beforeSettle env s))),
         predictionResults :=
           evaluatePredictions (parseFloat env) (predictions env) (initialEnergyRef s)
             (calculateEnergy (initialEnergyRef s) 0 0 (ballY (beforeSettle env s))),
         isAnimating := False, frameRequested := False\<rparr>"
    unfolding animate_def using settleRule_stop [of "beforeSettle env s" env]
    by (simp add: ref_beforeSettle)
  show "velocityX (animate env s) = 0" by (simp add: eq)
  show "velocityY (animate env s) = 0" by (simp add: eq)
  show "ballX (animate env s) = ballX (beforeSettle env s)" by (simp add: eq)
  show "ballY (animate env s) = ballY (beforeSettle env s)" by (simp add: eq)
  show "finalEnergyData (animate env s)
          = Some (calculateEnergy (initialEnergyRef s) 0 0 (ballY (beforeSettle env s)))"
    by (simp add: eq)
  show "\<not> isAnimating (animate env s)" by (simp add: eq)
  show nf: "\<not> frameRequested (animate env s)" by (simp add: eq)
  show "\<forall>n. frames env n (animate env s) = animate env s"
    using nf by (simp add: frames_stopped)
next
  assume a: "\<not> (\<bar>velocityX (beforeSettle env s)\<bar> < 1 / 10 \<and> \<bar>velocityY (beforeSettle env s)\<bar> < 1 / 10)"
  then have eq: "animate env s = (beforeSettle env s)\<lparr>energyData :=
           calculateEnergy (initialEnergyRef (beforeSettle env s)) (velocityX (beforeSettle env s))
              (velocityY (beforeSettle env s)) (ballY (beforeSettle env s)),
         frameRequested := True\<rparr>"
    unfolding animate_def using settleRule_go [of "beforeSettle env s" env] by simp
  show "frameRequested (animate env s)" by (simp add: eq)
  show "finalEnergyData (animate env s) = finalEnergyData (beforeSettle env s)" by (simp add: eq)
  show "velocityX (animate env s) = velocityX (beforeSettle env s)" by (simp add: eq)
  show "velocityY (animate env s) = velocityY (beforeSettle env s)" by (simp add: eq)
qed

theorem settle_check_witness:
  "\<bar>velocityX (beforeSettle demoEnv restState)\<bar> < 1 / 10
   \<and> \<bar>velocityY (beforeSettle demoEnv restState)\<bar> < 1 / 10
   \<and> velocityX (animate demoEnv restState) = 0 \<and> velocityY (animate demoEnv restState) = 0
   \<and> finalEnergyData (animate demoEnv restState)
       = Some \<lparr>kineticEnergy = 0, potentialEnergy = 9 / 2, totalEnergy = 9 / 2,
               energyLoss = 355 / 2\<rparr>
   \<and> frames demoEnv 7 (animate demoEnv restState) = animate demoEnv restState
   \<and> \<not> \<bar>velocityX (beforeSettle demoEnv (startState demoComponent 1200))\<bar> < 1 / 10
   \<and> frameRequested (animate demoEnv (startState demoComponent 1200))
   \<and> velocityX (animate demoEnv (startState demoComponent 1200)) = 49 / 25"
proof -
  have r: "\<bar>velocityX (beforeSettle demoEnv restState)\<bar> < 1 / 10
       \<and> \<bar>velocityY (beforeSettle demoEnv restState)\<bar> < 1 / 10"
    unfolding beforeSettle_rest by (simp add: restState_def)
  have e: "calculateEnergy (initialEnergyRef restState) 0 0 (ballY (beforeSettle demoEnv restState))
       = \<lparr>kineticEnergy = 0, potentialEnergy = 9 / 2, totalEnergy = 9 / 2, energyLoss = 355 / 2\<rparr>"
    unfolding beforeSettle_rest
    by (simp add: restState_def calculateEnergy_def consts_defs Let_def)
  have g: "\<not> \<bar>velocityX (beforeSettle demoEnv (startState demoComponent 1200))\<bar> < 1 / 10"
    unfolding beforeSettle_start by simp
  have v: "velocityX (beforeSettle demoEnv (startState demoComponent 1200)) = 49 / 25"
    unfolding beforeSettle_start by simp
  show ?thesis
    using settle_check [of demoEnv restState]
      settle_check [of demoEnv "startState demoComponent 1200"] r e g v
    by simp
qed

section \<open>Bucket capture\<close>

lemma inBucket_integrate: "ballInBucket (integrate s) = ballInBucket s"
  by (simp add: integrate_def Let_def)

lemma bucketRule_captured: "ballInBucket s \<Longrightarrow> bucketRule env s = s"
  by (simp add: bucketRule_def split: option.splits)

lemma groundRule_captured: "ballInBucket s \<Longrightarrow> groundRule env s = s"
  by (simp add: groundRule_def)

lemma pathRule_captured: "ballInBucket s \<Longrightarrow> pathRule env s = s"
  by (simp add: pathRule_def)

lemma frictionRule_captured: "ballInBucket s \<Longrightarrow> frictionRule env s = s"
  by (simp add: frictionRule_def)

lemma inBucket_settleRule: "ballInBucket (settleRule env s) = ballInBucket s"
  by (simp add: settleRule_def Let_def)

lemma animate_captured: "ballInBucket s \<Longrightarrow> ballInBucket (animate env s)"
  by (simp add: animate_def beforeSettle_def inBucket_settleRule inBucket_integrate
      bucketRule_captured groundRule_captured pathRule_captured frictionRule_captured)

lemma bucketRule_capture:
  assumes "bucket env = Some b" and "\<not> ballInBucket s"
    and "checkBucketHit (bucket env) (ballX s) (ballY s)"
  shows "bucketRule env s =
     s\<lparr>ballInBucket := True, bucketHit := True, showBucketResult := True,
       ballY := (bucket_y b - bucket_height b) - BALL_RADIUS,
       velocityX := 0, velocityY := 0, onGround := True\<rparr>"
  using assms by (simp add: bucketRule_def)

lemma beforeSettle_capture:
  assumes "bucket env = Some b" and "\<not> ballInBucket s"
    and "checkBucketHit (bucket env) (ballX (integrate s)) (ballY (integrate s))"
  shows "beforeSettle env s =
     (integrate s)\<lparr>ballInBucket := True, bucketHit := True, showBucketResult := True,
       ballY := (bucket_y b - bucket_height b) - BALL_RADIUS,
       velocityX := 0, velocityY := 0, onGround := True\<rparr>"
proof -
  have "bucketRule env (integrate s) =
     (integrate s)\<lparr>ballInBucket := True, bucketHit := True, showBucketResult := True,
       ballY := (bucket_y b - bucket_height b) - BALL_RADIUS,
       velocityX := 0, velocityY := 0, onGround := True\<rparr>"
    using assms by (intro bucketRule_capture) (simp_all add: inBucket_integrate)
  then show ?thesis
    by (simp add: beforeSettle_def groundRule_captured pathRule_captured frictionRule_captured)
qed

lemma animate_capture:
  assumes "bucket env = Some b" and "\<not> ballInBucket s"
    and "checkBucketHit (bucket env) (ballX (integrate s)) (ballY (integrate s))"
  shows "animate env s =
     (integrate s)\<lparr>ballInBucket := True, bucketHit := True, showBucketResult := True,
       ballY := (bucket_y b - bucket_height b) - BALL_RADIUS,
       velocityX := 0, velocityY := 0, onGround := True,
       energyData :=
         calculateEnergy (initialEnergyRef s) 0 0 ((bucket_y b - bucket_height b) - BALL_RADIUS),
       finalEnergyData :=
         Some (calculateEnergy (initialEnergyRef s) 0 0
                 ((bucket_y b - bucket_height b) - BALL_RADIUS)),
       predictionResults :=
         evaluatePredictions (parseFloat env) (predictions env) (initialEnergyRef s)
           (calculateEnergy (initialEnergyRef s) 0 0
              ((bucket_y b - bucket_height b) - BALL_RADIUS)),
       isAnimating := False, frameRequested := False\<rparr>"
  unfolding animate_def beforeSettle_capture [OF assms]
  by (simp add: settleRule_def Let_def ref_integrate)

lemma demo_bucket:
  "bucket demoEnv = Some \<lparr>bucket_x = 300, bucket_y = 650, bucket_width = 80,
                           bucket_height = 60, isHit = False\<rparr>"
  by (simp add: demoEnv_eq)

lemma demo_drop_hit:
  "checkBucketHit (bucket demoEnv) (ballX (integrate dropState)) (ballY (integrate dropState))"
  by (simp add: demo_bucket checkBucketHit_def integrate_def dropState_def consts_defs Let_def)

text \<open>
  C5. On the frame in which the ball is found inside the bucket, both velocity components
  are set to 0, the ball's y is set to the bucket's top edge minus the ball radius, and the
  capture flag is set. The flag is never cleared; in every state with the flag set, the
  ground rule, the path rule and the damping leave the state as it is; and the run keeps
  the captured position and velocity whatever number of further frames is asked for.
\<close>

theorem bucket_capture_latched:
  assumes "bucket env = Some b" and "\<not> ballInBucket s"
    and "checkBucketHit (bucket env) (ballX (integrate s)) (ballY (integrate s))"
  shows "ballInBucket (animate env s)
     \<and> velocityX (animate env s) = 0 \<and> velocityY (animate env s) = 0
     \<and> ballY (animate env s) = (bucket_y b - bucket_height b) - BALL_RADIUS
     \<and> (\<forall>n. ballInBucket (frames env n (animate env s))
            \<and> ballX (frames env n (animate env s)) = ballX (animate env s)
            \<and> ballY (frames env n (animate env s)) = ballY (animate env s)
            \<and> velocityX (frames env n (animate env s)) = 0
            \<and> velocityY (frames env n (animate env s)) = 0)
     \<and> (\<forall>t. ballInBucket t \<longrightarrow>
            groundRule env t = t \<and> pathRule env t = t \<and> frictionRule env t = t
            \<and> ballInBucket (animate env t))"
proof -
  note eq = animate_capture [OF assms]
  have a: "ballInBucket (animate env s)" by (simp add: eq)
  have vx: "velocityX (animate env s) = 0" by (simp add: eq)
  have vy: "velocityY (animate env s) = 0" by (simp add: eq)
  have y: "ballY (animate env s) = (bucket_y b - bucket_height b) - BALL_RADIUS"
    by (simp add: eq)
  have "\<not> frameRequested (animate env s)" by (simp add: eq)
  then have st: "frames env n (animate env s) = animate env s" for n
    by (rule frames_stopped)
  have latch: "\<forall>t. ballInBucket t \<longrightarrow>
            groundRule env t = t \<and> pathRule env t = t \<and> frictionRule env t = t
            \<and> ballInBucket (animate env t)"
    by (simp add: groundRule_captured pathRule_captured frictionRule_captured animate_captured)
  from a vx vy y latch show ?thesis
    by (simp add: st)
qed

theorem bucket_capture_latched_witness:
  "bucket demoEnv = Some \<lparr>bucket_x = 300, bucket_y = 650, bucket_width = 80,
                           bucket_height = 60, isHit = False\<rparr>
   \<and> \<not> ballInBucket dropState
   \<and> checkBucketHit (bucket demoEnv) (ballX (integrate dropState)) (ballY (integrate dropState))
   \<and> ballInBucket (animate demoEnv dropState)
   \<and> velocityX (animate demoEnv dropState) = 0 \<and> velocityY (animate demoEnv dropState) = 0
   \<and> ballY (animate demoEnv dropState) = 575
   \<and> ballY (frames demoEnv 5 (animate demoEnv dropState)) = 575
   \<and> groundRule demoEnv (animate demoEnv dropState) = animate demoEnv dropState"
proof -
  have n: "\<not> ballInBucket dropState" by (simp add: dropState_def)
  show ?thesis
    using bucket_capture_latched [OF demo_bucket n demo_drop_hit] demo_bucket n demo_drop_hit
    by (simp add: consts_defs)
qed

text \<open>
  C10. The frame in which the ball is found inside the bucket also ends the run: no ground,
  path or damping rule acts after the capture, so the stop check sees zero velocity, the
  final energy data are those of a ball at rest at the bucket's top edge minus the radius,
  and no later frame runs.
\<close>

theorem capture_ends_run:
  assumes "bucket env = Some b" and "\<not> ballInBucket s"
    and "checkBucketHit (bucket env) (ballX (integrate s)) (ballY (integrate s))"
  shows "beforeSettle env s = bucketRule env (integrate s)
     \<and> \<bar>velocityX (beforeSettle env s)\<bar> < 1 / 10 \<and> \<bar>velocityY (beforeSettle env s)\<bar> < 1 / 10
     \<and> finalEnergyData (animate env s)
         = Some (calculateEnergy (initialEnergyRef s) 0 0
                   ((bucket_y b - bucket_height b) - BALL_RADIUS))
     \<and> finalEnergyData (animate env s)
         = Some (calculateEnergy (initialEnergyRef s) (velocityX (animate env s))
                   (velocityY (animate env s)) (ballY (animate env s)))
     \<and> \<not> isAnimating (animate env s)
     \<and> \<not> frameRequested (animate env s)
     \<and> (\<forall>n. frames env n (animate env s) = animate env s)"
proof -
  note eq = animate_capture [OF assms]
  note bs = beforeSettle_capture [OF assms]
  have c: "ballInBucket (bucketRule env (integrate s))"
    using assms by (simp add: bucketRule_def inBucket_integrate)
  have r: "beforeSettle env s = bucketRule env (integrate s)"
    using c by (simp add: beforeSettle_def groundRule_captured pathRule_captured
        frictionRule_captured)
  have v: "\<bar>velocityX (beforeSettle env s)\<bar> < 1 / 10 \<and> \<bar>velocityY (beforeSettle env s)\<bar> < 1 / 10"
    by (simp add: bs)
  have f1: "finalEnergyData (animate env s)
         = Some (calculateEnergy (initialEnergyRef s) 0 0
                   ((bucket_y b - bucket_height b) - BALL_RADIUS))"
    by (simp add: eq)
  have f2: "finalEnergyData (animate env s)
         = Some (calculateEnergy (initialEnergyRef s) (velocityX (animate env s))
                   (velocityY (animate env s)) (ballY (animate env s)))"
    by (simp add: eq)
  have ia: "\<not> isAnimating (animate env s)" by (simp add: eq)
  have nf: "\<not> frameRequested (animate env s)" by (simp add: eq)
  have st: "\<forall>n. frames env n (animate env s) = animate env s"
    using nf by (simp add: frames_stopped)
  from r v f1 f2 ia nf st show ?thesis by blast
qed

theorem capture_ends_run_witness:
  "bucket demoEnv = Some \<lparr>bucket_x = 300, bucket_y = 650, bucket_width = 80,
                           bucket_height = 60, isHit = False\<rparr>
   \<and> \<not> ballInBucket dropState
   \<and> checkBucketHit (bucket demoEnv) (ballX (integrate dropState)) (ballY (integrate dropState))
   \<and> finalEnergyData (animate demoEnv dropState)
       = Some \<lparr>kineticEnergy = 0, potentialEnergy = 45 / 2, totalEnergy = 45 / 2,
               energyLoss = 319 / 2\<rparr>
   \<and> \<not> frameRequested (animate demoEnv dropState)
   \<and> frames demoEnv 4 (animate demoEnv dropState) = animate demoEnv dropState"
proof -
  have n: "\<not> ballInBucket dropState" by (simp add: dropState_def)
  have e: "calculateEnergy (initialEnergyRef dropState) 0 0 ((650 - 60) - BALL_RADIUS)
     = \<lparr>kineticEnergy = 0, potentialEnergy = 45 / 2, totalEnergy = 45 / 2,
        energyLoss = 319 / 2\<rparr>"
    by (simp add: calculateEnergy_def dropState_def consts_defs Let_def)
  show ?thesis
    using capture_ends_run [OF demo_bucket n demo_drop_hit] demo_bucket n demo_drop_hit e
    by simp
qed

section \<open>The ground clamp\<close>

lemma groundRule_clamp:
  "\<not> ballInBucket s \<Longrightarrow> ballY (groundRule env s) \<le> GROUND_Y - BALL_RADIUS"
  by (simp add: groundRule_def)

lemma inBucket_groundRule: "ballInBucket (groundRule env s) = ballInBucket s"
  by (simp add: groundRule_def)

lemma inBucket_pathRule: "ballInBucket (pathRule env s) = ballInBucket s"
  by (simp add: pathRule_def Let_def split: option.splits)

lemma inBucket_frictionRule: "ballInBucket (frictionRule env s) = ballInBucket s"
  by (simp add: frictionRule_def)

lemma ballY_pathRule: "ballY (pathRule env s) \<le> ballY s"
  by (simp add: pathRule_def Let_def split: option.splits)

lemma ballY_frictionRule: "ballY (frictionRule env s) = ballY s"
  by (simp add: frictionRule_def)

lemma ballY_settleRule: "ballY (settleRule env s) = ballY s"
  by (simp add: settleRule_def Let_def)

lemma animate_clamp:
  assumes "\<not> ballInBucket (animate env s)"
  shows "ballY (animate env s) \<le> GROUND_Y - BALL_RADIUS"
proof -
  let ?g = "bucketRule env (integrate s)"
  have "\<not> ballInBucket ?g"
    using assms
    by (simp add: animate_def beforeSettle_def inBucket_settleRule inBucket_frictionRule
        inBucket_pathRule inBucket_groundRule)
  then have "ballY (groundRule env ?g) \<le> GROUND_Y - BALL_RADIUS"
    by (rule groundRule_clamp)
  moreover have "ballY (animate env s) \<le> ballY (groundRule env ?g)"
    using ballY_pathRule [of env "groundRule env ?g"]
    by (simp add: animate_def beforeSettle_def ballY_settleRule ballY_frictionRule)
  ultimately show ?thesis by linarith
qed

lemma frames_last:
  "frameRequested s \<Longrightarrow> \<exists>t. frames env (Suc n) s = animate env t"
proof (induction n arbitrary: s)
  case 0
  then show ?case by auto
next
  case (Suc n)
  show ?case
  proof (cases "frameRequested (animate env s)")
    case True
    from Suc.IH [OF True] obtain t where "frames env (Suc n) (animate env s) = animate env t"
      by blast
    with Suc.prems show ?thesis by auto
  next
    case False
    then have "frames env (Suc n) (animate env s) = animate env s"
      by (rule frames_stopped)
    with Suc.prems show ?thesis by auto
  qed
qed

text \<open>
  C8. When the ground rule triggers in a frame it puts the ball at the ground line minus
  the radius, zeroes the vertical velocity, scales the horizontal velocity by the friction
  and marks the ball as grounded. At the end of every frame in which the ball is not
  captured by the bucket, and so at the end of every frame of a run after ground contact
  while the ball stays on the ground, the ball's y is at most the ground line minus the
  radius.
\<close>

theorem ground_clamp:
  "(\<not> ballInBucket t \<and> ballY t + BALL_RADIUS \<ge> GROUND_Y \<longrightarrow>
      ballY (groundRule env t) = GROUND_Y - BALL_RADIUS
      \<and> velocityY (groundRule env t) = 0
      \<and> velocityX (groundRule env t) = velocityX t * friction env
      \<and> onGround (groundRule env t))
   \<and> (\<not> ballInBucket (animate env s) \<longrightarrow> ballY (animate env s) \<le> GROUND_Y - BALL_RADIUS)
   \<and> (frameRequested s \<and> 0 < n \<and> \<not> ballInBucket (frames env n s) \<longrightarrow>
        ballY (frames env n s) \<le> GROUND_Y - BALL_RADIUS)"
proof (intro conjI impI)
  assume "\<not> ballInBucket t \<and> ballY t + BALL_RADIUS \<ge> GROUND_Y"
  then have eq: "groundRule env t =
      t\<lparr>ballY := GROUND_Y - BALL_RADIUS, velocityY := 0, onGround := True,
        velocityX := velocityX t * friction env,
        showBucketResult := (if bucket env \<noteq> None then True else showBucketResult t)\<rparr>"
    by (simp add: groundRule_def)
  show "ballY (groundRule env t) = GROUND_Y - BALL_RADIUS" by (simp add: eq)
  show "velocityY (groundRule env t) = 0" by (simp add: eq)
  show "velocityX (groundRule env t) = velocityX t * friction env" by (simp add: eq)
  show "onGround (groundRule env t)" by (simp add: eq)
next
  assume "\<not> ballInBucket (animate env s)"
  then show "ballY (animate env s) \<le> GROUND_Y - BALL_RADIUS"
    by (rule animate_clamp)
next
  assume a: "frameRequested s \<and> 0 < n \<and> \<not> ballInBucket (frames env n s)"
  then obtain m where m: "n = Suc m" by (cases n) auto
  with a obtain u where "frames env n s = animate env u"
    using frames_last [of s env m] by auto
  with a show "ballY (frames env n s) \<le> GROUND_Y - BALL_RADIUS"
    using animate_clamp [of env u] by simp
qed

theorem ground_clamp_witness:
  "\<not> ballInBucket (integrate restState) \<and> ballY (integrate restState) + BALL_RADIUS \<ge> GROUND_Y
   \<and> ballY (groundRule demoEnv (integrate restState)) = 635
   \<and> \<not> ballInBucket (animate demoEnv restState)
   \<and> ballY (animate demoEnv restState) \<le> 635
   \<and> frameRequested restState \<and> (0::nat) < 1
   \<and> \<not> ballInBucket (frames demoEnv 1 restState)
   \<and> ballY (frames demoEnv 1 restState) \<le> 635"
proof -
  have h: "\<not> ballInBucket (integrate restState)
      \<and> ballY (integrate restState) + BALL_RADIUS \<ge> GROUND_Y"
    by (simp add: integrate_def restState_def consts_defs Let_def)
  have a: "\<not> ballInBucket (animate demoEnv restState)"
    unfolding animate_def inBucket_settleRule beforeSettle_rest by (simp add: restState_def)
  have f: "frameRequested restState" by (simp add: restState_def)
  then have o: "frames demoEnv 1 restState = animate demoEnv restState" by simp
  show ?thesis
    using ground_clamp [of "integrate restState" demoEnv restState 1] h a f
    unfolding o by (simp add: consts_defs)
qed

section \<open>Energy in free fall\<close>

lemma bucketRule_miss:
  assumes "\<not> ballInBucket s" and "\<not> checkBucketHit (bucket env) (ballX s) (ballY s)"
  shows "bucketRule env s = s"
proof (cases "bucket env")
  case None
  then show ?thesis by (simp add: bucketRule_def)
next
  case (Some b)
  have "s\<lparr>ballInBucket := False\<rparr> = s\<lparr>ballInBucket := ballInBucket s\<rparr>"
    using assms(1) by simp
  then have "s\<lparr>ballInBucket := False\<rparr> = s" by simp
  with assms Some show ?thesis
    by (simp add: bucketRule_def)
qed

lemma beforeSettle_freeFall:
  assumes "freeFall env s"
  shows "beforeSettle env s =
     (integrate s)\<lparr>onGround := False, velocityX := velocityX (integrate s) * friction env\<rparr>"
proof -
  let ?s1 = "integrate s"
  from assms have nb: "\<not> ballInBucket ?s1"
    and nh: "\<not> checkBucketHit (bucket env) (ballX ?s1) (ballY ?s1)"
    and ng: "\<not> (ballY ?s1 + BALL_RADIUS \<ge> GROUND_Y)"
    and nc: "getCollisionPoint \<lparr>px = ballX ?s1, py = ballY ?s1\<rparr> (pathPoints env) = None"
    by (simp_all add: freeFall_def Let_def inBucket_integrate)
  have b: "bucketRule env ?s1 = ?s1"
    using nb nh by (rule bucketRule_miss)
  have g: "groundRule env ?s1 = ?s1"
    using ng by (simp add: groundRule_def)
  have p: "pathRule env ?s1 = ?s1\<lparr>onGround := False\<rparr>"
    using nb nc by (simp add: pathRule_def)
  have f: "frictionRule env (?s1\<lparr>onGround := False\<rparr>)
      = ?s1\<lparr>onGround := False, velocityX := velocityX ?s1 * friction env\<rparr>"
    using nb by (simp add: frictionRule_def)
  show ?thesis
    unfolding beforeSettle_def b g p f ..
qed

lemma energy_integrate:
  "totalEnergy (calculateEnergy r vx (vy + GRAVITY) (y + (vy + GRAVITY)))
     = totalEnergy (calculateEnergy r vx vy y) - BALL_MASS * GRAVITY\<^sup>2 / 2"
  by (simp add: calculateEnergy_def Let_def power2_eq_square field_simps)

lemma stateEnergy_freeFall:
  assumes "friction env = 1" and "freeFall env s"
  shows "stateEnergy (beforeSettle env s) = stateEnergy s - BALL_MASS * GRAVITY\<^sup>2 / 2"
  unfolding beforeSettle_freeFall [OF assms(2)] stateEnergy_def
  using energy_integrate [of "initialEnergyRef s" "velocityX s" "velocityY s" "ballY s"]
  by (simp add: assms(1) integrate_def Let_def)

lemma animate_running:
  assumes "frameRequested (animate env s)"
  shows "animate env s =
     (beforeSettle env s)\<lparr>energyData :=
         calculateEnergy (initialEnergyRef (beforeSettle env s)) (velocityX (beforeSettle env s))
           (velocityY (beforeSettle env s)) (ballY (beforeSettle env s)),
       frameRequested := True\<rparr>"
proof (cases "\<bar>velocityX (beforeSettle env s)\<bar> < 1 / 10 \<and> \<bar>velocityY (beforeSettle env s)\<bar> < 1 / 10")
  case True
  then have "\<not> frameRequested (animate env s)"
    unfolding animate_def using settleRule_stop [of "beforeSettle env s" env] by simp
  with assms show ?thesis by simp
next
  case False
  then show ?thesis
    unfolding animate_def by (rule settleRule_go)
qed

lemma stateEnergy_animate:
  assumes "friction env = 1" and "freeFall env s" and "frameRequested (animate env s)"
  shows "stateEnergy (animate env s) = stateEnergy s - BALL_MASS * GRAVITY\<^sup>2 / 2"
    and "totalEnergy (energyData (animate env s)) = stateEnergy s - BALL_MASS * GRAVITY\<^sup>2 / 2"
proof -
  have "stateEnergy (animate env s) = stateEnergy (beforeSettle env s)"
    by (subst animate_running [OF assms(3)]) (simp add: stateEnergy_def calculateEnergy_def)
  then show "stateEnergy (animate env s) = stateEnergy s - BALL_MASS * GRAVITY\<^sup>2 / 2"
    using stateEnergy_freeFall [OF assms(1,2)] by simp
  have "totalEnergy (energyData (animate env s)) = stateEnergy (beforeSettle env s)"
    by (subst animate_running [OF assms(3)]) (simp add: stateEnergy_def)
  then show "totalEnergy (energyData (animate env s)) = stateEnergy s - BALL_MASS * GRAVITY\<^sup>2 / 2"
    using stateEnergy_freeFall [OF assms(1,2)] by simp
qed

lemma frames_Suc_last:
  "\<forall>k\<le>n. frameRequested (frames env k s) \<Longrightarrow>
     frames env (Suc n) s = animate env (frames env n s)"
proof (induction n arbitrary: s)
  case 0
  then show ?case by simp
next
  case (Suc n)
  from Suc.prems have s: "frameRequested s" by force
  have "\<forall>k\<le>n. frameRequested (frames env k (animate env s))"
  proof (intro allI impI)
    fix k assume "k \<le> n"
    then have "Suc k \<le> Suc n" by simp
    with Suc.prems have "frameRequested (frames env (Suc k) s)" by blast
    with s show "frameRequested (frames env k (animate env s))" by simp
  qed
  from Suc.IH [OF this] s show ?case by simp
qed

lemma frames_energy:
  assumes "friction env = 1"
  shows "(\<forall>k<n. freeFall env (frames env k s)) \<Longrightarrow> (\<forall>k\<le>n. frameRequested (frames env k s)) \<Longrightarrow>
     stateEnergy (frames env n s) = stateEnergy s - real n * (BALL_MASS * GRAVITY\<^sup>2 / 2)
     \<and> (0 < n \<longrightarrow> totalEnergy (energyData (frames env n s))
                    = stateEnergy s - real n * (BALL_MASS * GRAVITY\<^sup>2 / 2))"
proof (induction n)
  case 0
  then show ?case by simp
next
  case (Suc n)
  let ?t = "frames env n s"
  from Suc.prems have ih: "stateEnergy ?t = stateEnergy s - real n * (BALL_MASS * GRAVITY\<^sup>2 / 2)"
    using Suc.IH by simp
  from Suc.prems have step: "frames env (Suc n) s = animate env ?t"
    by (intro frames_Suc_last) simp
  from Suc.prems have ff: "freeFall env ?t" by simp
  from Suc.prems have "frameRequested (frames env (Suc n) s)" by blast
  then have fr: "frameRequested (animate env ?t)" by (simp only: step)
  note e = stateEnergy_animate [OF assms ff fr]
  have x: "real (Suc n) * (BALL_MASS * GRAVITY\<^sup>2 / 2)
      = real n * (BALL_MASS * GRAVITY\<^sup>2 / 2) + BALL_MASS * GRAVITY\<^sup>2 / 2"
    by (simp add: distrib_right)
  have "stateEnergy (animate env ?t)
      = stateEnergy s - real (Suc n) * (BALL_MASS * GRAVITY\<^sup>2 / 2)"
    unfolding x using e(1) ih by linarith
  moreover have "totalEnergy (energyData (animate env ?t))
      = stateEnergy s - real (Suc n) * (BALL_MASS * GRAVITY\<^sup>2 / 2)"
    unfolding x using e(2) ih by linarith
  ultimately show ?case
    unfolding step by blast
qed

lemma withinTolerance_refl: "withinTolerance a a"
  by (simp add: withinTolerance_def FLOAT_TOLERANCE_def)

lemma frictionless_env: "runEnv decimalParse frictionlessComponent = demoEnv\<lparr>friction := 1\<rparr>"
  by (simp add: runEnv_def frictionlessComponent_def demoEnv_def)

lemma frictionless_start:
  "startState frictionlessComponent 1200 = startState demoComponent 1200"
  by (simp add: startState_def frictionlessComponent_def)

lemma frictionless_frame1:
  "animate (demoEnv\<lparr>friction := 1\<rparr>) (startState demoComponent 1200) =
     \<lparr>ballX = 102, ballY = 503 / 10, velocityX = 2, velocityY = 3 / 10,
      onGround = False, ballInBucket = False, initialEnergyRef = 182,
      energyData = \<lparr>kineticEnergy = 409 / 200, potentialEnergy = 17991 / 100,
                    totalEnergy = 36391 / 200, energyLoss = 9 / 200\<rparr>,
      finalEnergyData = None, predictionResults = [],
      bucketHit = False, showBucketResult = False, isAnimating = True, frameRequested = True\<rparr>"
  unfolding demo_start
  by (simp add: animate_def beforeSettle_def settleRule_def frame_defs demoEnv_eq
      calculateEnergy_def Let_def sqrt_less_18)

lemma frictionless_frame2:
  "animate (demoEnv\<lparr>friction := 1\<rparr>)
     \<lparr>ballX = 102, ballY = 503 / 10, velocityX = 2, velocityY = 3 / 10,
      onGround = False, ballInBucket = False, initialEnergyRef = 182,
      energyData = \<lparr>kineticEnergy = 409 / 200, potentialEnergy = 17991 / 100,
                    totalEnergy = 36391 / 200, energyLoss = 9 / 200\<rparr>,
      finalEnergyData = None, predictionResults = [],
      bucketHit = False, showBucketResult = False, isAnimating = True, frameRequested = True\<rparr> =
     \<lparr>ballX = 104, ballY = 509 / 10, velocityX = 2, velocityY = 6 / 10,
      onGround = False, ballInBucket = False, initialEnergyRef = 182,
      energyData = \<lparr>kineticEnergy = 218 / 100, potentialEnergy = 17973 / 100,
                    totalEnergy = 18191 / 100, energyLoss = 9 / 100\<rparr>,
      finalEnergyData = None, predictionResults = [],
      bucketHit = False, showBucketResult = False, isAnimating = True, frameRequested = True\<rparr>"
  by (simp add: animate_def beforeSettle_def settleRule_def frame_defs demoEnv_eq
      calculateEnergy_def Let_def sqrt_less_18)

lemma frictionless_freeFall0:
  "freeFall (demoEnv\<lparr>friction := 1\<rparr>) (startState demoComponent 1200)"
  unfolding demo_start
  by (simp add: freeFall_def integrate_def checkBucketHit_def demoEnv_eq consts_defs Let_def
      sqrt_less_18)

lemma frictionless_freeFall1:
  "freeFall (demoEnv\<lparr>friction := 1\<rparr>)
     (animate (demoEnv\<lparr>friction := 1\<rparr>) (startState demoComponent 1200))"
  unfolding frictionless_frame1
  by (simp add: freeFall_def integrate_def checkBucketHit_def demoEnv_eq consts_defs Let_def
      sqrt_less_18)

text \<open>
  C1, as stated, fails: with friction 1 the first frame of the run below is a free-fall
  frame, the initial total energy is 182, and the total energy computed after the frame
  is lower by more than 0.04, which is not within floating-point tolerance of 182.
\<close>

theorem energy_conservation_counterexample:
  "frictionSetting frictionlessComponent = 1
   \<and> freeFall (runEnv decimalParse frictionlessComponent)
        (startState frictionlessComponent 1200)
   \<and> runSimulation decimalParse frictionlessComponent
       = Some (animate (runEnv decimalParse frictionlessComponent)
                 (startState frictionlessComponent 1200))
   \<and> initialEnergyRef (startState frictionlessComponent 1200) = 182
   \<and> totalEnergy (energyData
        (animate (runEnv decimalParse frictionlessComponent)
           (startState frictionlessComponent 1200)))
       < 182 - 4 / 100
   \<and> \<not> withinTolerance
        (totalEnergy (energyData
           (animate (runEnv decimalParse frictionlessComponent)
              (startState frictionlessComponent 1200))))
        (initialEnergyRef (startState frictionlessComponent 1200))"
proof -
  have r: "runSimulation decimalParse frictionlessComponent
       = Some (animate (runEnv decimalParse frictionlessComponent)
                 (startState frictionlessComponent 1200))"
    by (simp add: runSimulation_def frictionlessComponent_def demoComponent_def)
  have f: "frictionSetting frictionlessComponent = 1"
    by (simp add: frictionlessComponent_def)
  have i: "initialEnergyRef (startState demoComponent 1200) = 182"
    by (simp add: demo_start)
  have e: "totalEnergy (energyData
        (animate (demoEnv\<lparr>friction := 1\<rparr>) (startState demoComponent 1200))) = 36391 / 200"
    unfolding frictionless_frame1 by simp
  have l: "totalEnergy (energyData
        (animate (demoEnv\<lparr>friction := 1\<rparr>) (startState demoComponent 1200))) < 182 - 4 / 100"
    unfolding e by simp
  have w: "\<not> withinTolerance
        (totalEnergy (energyData
           (animate (demoEnv\<lparr>friction := 1\<rparr>) (startState demoComponent 1200))))
        (initialEnergyRef (startState demoComponent 1200))"
    unfolding e i by (simp add: withinTolerance_def FLOAT_TOLERANCE_def)
  from r f i l w frictionless_freeFall0 show ?thesis
    unfolding frictionless_env frictionless_start by blast
qed

text \<open>
  C1, amended. With friction 1, over frames in which no bucket, ground or path contact
  triggers and the run has not stopped, the total energy computed after each frame from
  the velocity and position after the frame equals, within floating-point tolerance, the
  initial total energy minus 0.045 (mass * gravity^2 / 2) for each frame run so far.
\<close>

theorem free_fall_energy_drift:
  assumes "friction env = 1"
    and "\<forall>k<n. freeFall env (frames env k s)"
    and "\<forall>k\<le>n. frameRequested (frames env k s)"
  shows "withinTolerance (stateEnergy (frames env n s)) (stateEnergy s - real n * (9 / 200))
     \<and> (0 < n \<longrightarrow>
          withinTolerance (totalEnergy (energyData (frames env n s)))
            (stateEnergy s - real n * (9 / 200)))"
proof -
  have d: "BALL_MASS * GRAVITY\<^sup>2 / 2 = 9 / 200"
    by (simp add: consts_defs power2_eq_square)
  note e = frames_energy [OF assms, unfolded d]
  from e have "stateEnergy (frames env n s) = stateEnergy s - real n * (9 / 200)"
    by blast
  moreover from e have "0 < n \<longrightarrow>
      totalEnergy (energyData (frames env n s)) = stateEnergy s - real n * (9 / 200)"
    by blast
  ultimately show ?thesis
    by (simp add: withinTolerance_refl)
qed

theorem free_fall_energy_drift_witness:
  "friction (runEnv decimalParse frictionlessComponent) = 1
   \<and> freeFall (runEnv decimalParse frictionlessComponent)
        (frames (runEnv decimalParse frictionlessComponent) 0
           (startState frictionlessComponent 1200))
   \<and> freeFall (runEnv decimalParse frictionlessComponent)
        (frames (runEnv decimalParse frictionlessComponent) 1
           (startState frictionlessComponent 1200))
   \<and> frameRequested
        (frames (runEnv decimalParse frictionlessComponent) 0
           (startState frictionlessComponent 1200))
   \<and> frameRequested
        (frames (runEnv decimalParse frictionlessComponent) 1
           (startState frictionlessComponent 1200))
   \<and> frameRequested
        (frames (runEnv decimalParse frictionlessComponent) 2
           (startState frictionlessComponent 1200))
   \<and> stateEnergy (startState frictionlessComponent 1200) = 182
   \<and> withinTolerance
        (totalEnergy (energyData
           (frames (runEnv decimalParse frictionlessComponent) 2
              (startState frictionlessComponent 1200))))
        (182 - 2 * (9 / 200))"
proof -
  let ?env = "demoEnv\<lparr>friction := 1\<rparr>"
  let ?s = "startState demoComponent 1200"
  have f0: "frames ?env 0 ?s = ?s" by simp
  have r0: "frameRequested ?s" by (simp add: demo_start)
  then have f1: "frames ?env 1 ?s = animate ?env ?s" by simp
  have r1: "frameRequested (animate ?env ?s)"
    unfolding frictionless_frame1 by simp
  have f2: "frames ?env 2 ?s = animate ?env (animate ?env ?s)"
    using r0 r1 by (simp add: numeral_2_eq_2)
  have r2: "frameRequested (animate ?env (animate ?env ?s))"
    unfolding frictionless_frame1 frictionless_frame2 by simp
  have lt2: "k < 2 \<longleftrightarrow> k = 0 \<or> k = 1" for k :: nat by auto
  have le2: "k \<le> 2 \<longleftrightarrow> k = 0 \<or> k = 1 \<or> k = 2" for k :: nat by auto
  have a: "friction ?env = 1" by simp
  have b: "\<forall>k<2. freeFall ?env (frames ?env k ?s)"
    using frictionless_freeFall0 frictionless_freeFall1 by (auto simp add: lt2 f1)
  have c: "\<forall>k\<le>2. frameRequested (frames ?env k ?s)"
    using r0 r1 r2 by (auto simp add: le2 f1 f2)
  have d: "stateEnergy ?s = 182"
    unfolding demo_start by (simp add: stateEnergy_def calculateEnergy_def consts_defs Let_def)
  have e: "withinTolerance (totalEnergy (energyData (frames ?env 2 ?s))) (182 - 2 * (9 / 200))"
    using free_fall_energy_drift [OF a b c] d by simp
  have b0: "freeFall ?env (frames ?env 0 ?s)"
    using frictionless_freeFall0 by simp
  have b1: "freeFall ?env (frames ?env 1 ?s)"
    using frictionless_freeFall1 by (simp only: f1)
  have c0: "frameRequested (frames ?env 0 ?s)"
    using r0 by simp
  have c1: "frameRequested (frames ?env 1 ?s)"
    using r1 by (simp only: f1)
  have c2: "frameRequested (frames ?env 2 ?s)"
    using r2 by (simp only: f2)
  from a b0 b1 c0 c1 c2 d e show ?thesis
    unfolding frictionless_env frictionless_start by blast
qed

section \<open>Starting a run\<close>









section \<open>Scoring the prediction texts\<close>

















end
